theory Spec2Isabelle
  imports Main "HOL-Library.Sublist"
begin

section \<open>Python values, exceptions and dictionaries\<close>

text \<open>
  The exceptions that \<^verbatim>\<open>serpy/serializer.py\<close> raises or catches. The handler in
  \<^verbatim>\<open>Serializer._serialize\<close> catches \<^verbatim>\<open>KeyError\<close> and \<^verbatim>\<open>AttributeError\<close>;
  every other exception passes through it.
\<close>

datatype pyerr = KeyError | AttributeError | TypeError | RuntimeError string | OtherError string

text \<open>
  The values that flow through a serializer: source objects (attribute objects and
  dicts), collections of them, extracted values and the output tree. \<open>VFun r\<close> is a
  zero-argument callable whose call returns \<open>r\<close> or raises.
\<close>

datatype pyval =
    VNone
  | VBool bool
  | VInt int
  | VStr string
  | VList "pyval list"
  | VDict "(string \<times> pyval) list"
  | VObj "(string \<times> pyval) list"
  | VFun "pyerr + pyval"

text \<open>\<^verbatim>\<open>d[k] = v\<close> on an insertion-ordered dict: an existing key keeps its place.\<close>

primrec dict_set :: "'k \<Rightarrow> 'v \<Rightarrow> ('k \<times> 'v) list \<Rightarrow> ('k \<times> 'v) list" where
  "dict_set k v [] = [(k, v)]"
| "dict_set k v (p # ps) = (if fst p = k then (k, v) # ps else p # dict_set k v ps)"

text \<open>\<^verbatim>\<open>d.update(other)\<close>: the items of \<open>other\<close> are stored one by one, in their order.\<close>

definition dict_update :: "('k \<times> 'v) list \<Rightarrow> ('k \<times> 'v) list \<Rightarrow> ('k \<times> 'v) list" where
  "dict_update d other = fold (\<lambda>(k, v). dict_set k v) other d"

text \<open>\<^verbatim>\<open>result()\<close>: calling a value with no arguments.\<close>

fun call_value :: "pyval \<Rightarrow> pyerr + pyval" where
  "call_value (VFun r) = r"
| "call_value _ = Inl TypeError"

text \<open>\<^verbatim>\<open>for o in instance\<close>: the sequence a value yields when it is iterated.\<close>

fun py_iter :: "pyval \<Rightarrow> pyerr + pyval list" where
  "py_iter (VList xs) = Inr xs"
| "py_iter (VDict d) = Inr (map (\<lambda>p. VStr (fst p)) d)"
| "py_iter (VStr s) = Inr (map (\<lambda>c. VStr [c]) s)"
| "py_iter _ = Inl TypeError"

section \<open>Serializer instances and compiled fields\<close>

text \<open>
  The state of a \<^verbatim>\<open>Serializer\<close> instance as \<^verbatim>\<open>__init__\<close> sets it: \<^verbatim>\<open>self.instance\<close>,
  \<^verbatim>\<open>self.many\<close> and the cache \<^verbatim>\<open>self._data\<close>. The compiled fields belong to the class
  and are passed beside it.
\<close>

record serializer =
  inst :: pyval
  many :: bool
  data_cache :: pyval

text \<open>
  A getter is a callable that the loop calls either as \<^verbatim>\<open>getter(instance)\<close> (first
  argument \<open>None\<close>) or as \<^verbatim>\<open>getter(self, instance)\<close> (first argument \<open>Some self\<close>).
\<close>

type_synonym getter = "serializer option \<Rightarrow> pyval \<Rightarrow> pyerr + pyval"

text \<open>
  The tuple built by \<^verbatim>\<open>_compile_field_to_tuple\<close>:
  \<^verbatim>\<open>(name, getter, to_value, call, required, pass_self)\<close>; \<^verbatim>\<open>to_value\<close> is \<^verbatim>\<open>None\<close> or a
  function.
\<close>

type_synonym compiled =
  "string \<times> getter \<times> (pyval \<Rightarrow> pyerr + pyval) option \<times> bool \<times> bool \<times> bool"

text \<open>
  The body of \<^verbatim>\<open>Serializer._serialize\<close>: the \<^verbatim>\<open>for\<close> loop over the compiled fields,
  with the dict \<^verbatim>\<open>v\<close> as accumulator. The \<^verbatim>\<open>try\<close> encloses the getter call only, so an
  exception of \<^verbatim>\<open>result()\<close> or of \<^verbatim>\<open>to_value(result)\<close> is never caught.
\<close>

fun serialize_loop ::
  "serializer \<Rightarrow> pyval \<Rightarrow> compiled list \<Rightarrow> (string \<times> pyval) list \<Rightarrow> pyerr + (string \<times> pyval) list"
where
  "serialize_loop self instance [] v = Inr v"
| "serialize_loop self instance ((name, getter, to_value, call, required, pass_self) # flds) v =
     (if pass_self then
        (case getter (Some self) instance of
           Inl e \<Rightarrow> Inl e
         | Inr result \<Rightarrow> serialize_loop self instance flds (dict_set name result v))
      else
        (case getter None instance of
           Inl e \<Rightarrow>
             if e = KeyError \<or> e = AttributeError then
               (if required then Inl e else serialize_loop self instance flds v)
             else Inl e
         | Inr result \<Rightarrow>
             if required \<or> result \<noteq> VNone then
               (case (if call then call_value result else Inr result) of
                  Inl e \<Rightarrow> Inl e
                | Inr called \<Rightarrow>
                    (case (case to_value of None \<Rightarrow> Inr called | Some tv \<Rightarrow> tv called) of
                       Inl e \<Rightarrow> Inl e
                     | Inr result' \<Rightarrow> serialize_loop self instance flds (dict_set name result' v)))
             else serialize_loop self instance flds (dict_set name result v)))"

text \<open>\<^verbatim>\<open>Serializer._serialize(self, instance, fields)\<close>: the loop started on \<^verbatim>\<open>v = {}\<close>.\<close>

definition serialize ::
  "serializer \<Rightarrow> pyval \<Rightarrow> compiled list \<Rightarrow> pyerr + (string \<times> pyval) list" where
  "serialize self instance flds = serialize_loop self instance flds []"

text \<open>
  The comprehension \<^verbatim>\<open>[serialize(o, fields) for o in instance]\<close> of
  \<^verbatim>\<open>Serializer.to_value\<close>, element by element; the first exception ends it.
\<close>

fun serialize_all :: "serializer \<Rightarrow> compiled list \<Rightarrow> pyval list \<Rightarrow> pyerr + pyval list" where
  "serialize_all self flds [] = Inr []"
| "serialize_all self flds (o1 # os) =
     (case serialize self o1 flds of
        Inl e \<Rightarrow> Inl e
      | Inr d \<Rightarrow>
          (case serialize_all self flds os of
             Inl e \<Rightarrow> Inl e
           | Inr ds \<Rightarrow> Inr (VDict d # ds)))"

text \<open>
  \<^verbatim>\<open>Serializer.to_value(self, instance)\<close>; the first argument is the class attribute
  \<^verbatim>\<open>self._compiled_fields\<close>.
\<close>

definition to_value :: "compiled list \<Rightarrow> serializer \<Rightarrow> pyval \<Rightarrow> pyerr + pyval" where
  "to_value flds self instance =
     (if many self then
        (case py_iter instance of
           Inl e \<Rightarrow> Inl e
         | Inr os \<Rightarrow>
             (case serialize_all self flds os of
                Inl e \<Rightarrow> Inl e
              | Inr ds \<Rightarrow> Inr (VList ds)))
      else
        (case serialize self instance flds of
           Inl e \<Rightarrow> Inl e
         | Inr d \<Rightarrow> Inr (VDict d)))"

text \<open>
  The property \<^verbatim>\<open>Serializer.data\<close>: it returns the value and the instance, whose
  \<^verbatim>\<open>_data\<close> it may have assigned.
\<close>

definition data :: "compiled list \<Rightarrow> serializer \<Rightarrow> pyerr + pyval \<times> serializer" where
  "data flds self =
     (if data_cache self = VNone then
        (case to_value flds self (inst self) of
           Inl e \<Rightarrow> Inl e
         | Inr d \<Rightarrow> Inr (d, self\<lparr>data_cache := d\<rparr>))
      else Inr (data_cache self, self))"

text \<open>
  \<^verbatim>\<open>Serializer.__init__(self, instance, many, data)\<close>; the keyword arguments handed on
  to \<^verbatim>\<open>Field.__init__\<close> do not reach the three attributes modelled here.
\<close>

definition Serializer_init :: "pyval \<Rightarrow> bool \<Rightarrow> pyval \<Rightarrow> pyerr + serializer" where
  "Serializer_init instance many_flag data_arg =
     (if data_arg \<noteq> VNone then
        Inl (RuntimeError ''serpy serializers do not support input validation'')
      else Inr \<lparr>inst = instance, many = many_flag, data_cache = VNone\<rparr>)"

section \<open>Fields and their compilation\<close>

text \<open>
  Modelled from the spec: the class \<^verbatim>\<open>Field\<close> of \<^verbatim>\<open>serpy/fields.py\<close> is not among the
  sources. A field is the Field Descriptor of the spec, as far as the serializer reads
  it: \<^verbatim>\<open>field.attr\<close>, \<^verbatim>\<open>field.call\<close>, \<^verbatim>\<open>field.label\<close>, \<^verbatim>\<open>field.required\<close>,
  \<^verbatim>\<open>field.getter_takes_serializer\<close>, the result of \<^verbatim>\<open>field.as_getter(name, cls)\<close> for
  the class being built (\<open>None\<close> when the field has no custom getter), the result of
  \<^verbatim>\<open>field._is_to_value_overridden()\<close> and the method \<^verbatim>\<open>field.to_value\<close>.
\<close>

record field =
  attr :: "string option"
  call :: bool
  label :: "string option"
  required :: bool
  getter_takes_serializer :: bool
  as_getter :: "string \<Rightarrow> getter option"
  is_to_value_overridden :: bool
  field_to_value :: "pyval \<Rightarrow> pyerr + pyval"

text \<open>\<^verbatim>\<open>s or name\<close> for an optional string: \<^verbatim>\<open>None\<close> and the empty string are falsy.\<close>

definition str_or :: "string option \<Rightarrow> string \<Rightarrow> string" where
  "str_or s name = (case s of None \<Rightarrow> name | Some t \<Rightarrow> if t = [] then name else t)"

text \<open>
  \<^verbatim>\<open>_compile_field_to_tuple(field, name, serializer_cls)\<close>. Of the class it reads the
  attribute \<^verbatim>\<open>default_getter\<close> only, which is passed as found by attribute lookup;
  reading it on a class that has none raises \<^verbatim>\<open>AttributeError\<close>.
\<close>

definition compile_field_to_tuple ::
  "field \<Rightarrow> string \<Rightarrow> (string \<Rightarrow> getter) option \<Rightarrow> pyerr + compiled" where
  "compile_field_to_tuple field name cls_default_getter =
     (case (case as_getter field name of
              Some g \<Rightarrow> Inr g
            | None \<Rightarrow>
                (case cls_default_getter of
                   None \<Rightarrow> Inl AttributeError
                 | Some dg \<Rightarrow> Inr (dg (str_or (attr field) name)))) of
        Inl e \<Rightarrow> Inl e
      | Inr getter \<Rightarrow>
          Inr (str_or (label field) name, getter,
               (if is_to_value_overridden field then Some (field_to_value field) else None),
               call field, required field, getter_takes_serializer field))"

text \<open>\<^verbatim>\<open>SerializerMeta._compile_fields\<close>: one tuple per item of the field map, in its order.\<close>

fun compile_fields ::
  "(string \<times> field) list \<Rightarrow> (string \<Rightarrow> getter) option \<Rightarrow> pyerr + compiled list" where
  "compile_fields [] dg = Inr []"
| "compile_fields ((name, field) # rest) dg =
     (case compile_field_to_tuple field name dg of
        Inl e \<Rightarrow> Inl e
      | Inr t \<Rightarrow>
          (case compile_fields rest dg of
             Inl e \<Rightarrow> Inl e
           | Inr ts \<Rightarrow> Inr (t # ts)))"

section \<open>Classes and the metaclass\<close>

text \<open>
  What a \<^verbatim>\<open>class Meta\<close> may hold in \<^verbatim>\<open>fields\<close> and \<^verbatim>\<open>exclude\<close>: \<^verbatim>\<open>None\<close> (also when
  the attribute is not there), a string, or a list or tuple whose elements are strings
  (\<open>Str\<close>) or objects with a \<^verbatim>\<open>name\<close> attribute (\<open>Obj\<close>, such as the field objects of a
  model).
\<close>

datatype item = Str string | Obj string

datatype cfg = CNone | CStr string | CList "item list"

text \<open>
  A model as the metaclass probes it: the names of \<^verbatim>\<open>model._meta.fields\<close> when
  \<^verbatim>\<open>model._meta\<close> is there and not \<^verbatim>\<open>None\<close>, and the names of
  \<^verbatim>\<open>model.__table__.columns\<close> when \<^verbatim>\<open>model.__table__\<close> is there and not \<^verbatim>\<open>None\<close>.
\<close>

record model =
  django_fields :: "string list option"
  sqla_columns :: "string list option"

text \<open>The attributes \<^verbatim>\<open>model\<close>, \<^verbatim>\<open>fields\<close> and \<^verbatim>\<open>exclude\<close> of a \<^verbatim>\<open>class Meta\<close>.\<close>

record meta =
  Meta_model :: "model option"
  Meta_fields :: cfg
  Meta_exclude :: cfg

text \<open>Truth value of such a setting: \<^verbatim>\<open>None\<close>, \<^verbatim>\<open>''\<close> and \<^verbatim>\<open>[]\<close> are falsy.\<close>

fun truthy :: "cfg \<Rightarrow> bool" where
  "truthy CNone = False"
| "truthy (CStr s) = (s \<noteq> [])"
| "truthy (CList xs) = (xs \<noteq> [])"

text \<open>Iterating a setting: a string yields its characters, \<^verbatim>\<open>None\<close> is not iterable.\<close>

fun cfg_iter :: "cfg \<Rightarrow> pyerr + item list" where
  "cfg_iter CNone = Inl TypeError"
| "cfg_iter (CStr s) = Inr (map (\<lambda>c. Str [c]) s)"
| "cfg_iter (CList xs) = Inr xs"

text \<open>\<^verbatim>\<open>field.name\<close>: a string has no such attribute.\<close>

fun item_name :: "item \<Rightarrow> pyerr + string" where
  "item_name (Str s) = Inl AttributeError"
| "item_name (Obj n) = Inr n"

text \<open>
  \<^verbatim>\<open>name in exclude\<close> for a string \<^verbatim>\<open>name\<close>: membership in a list, substring of a
  string. The source evaluates it only where \<^verbatim>\<open>exclude\<close> is truthy, so \<^verbatim>\<open>None\<close> is
  never asked.
\<close>

fun name_in :: "string \<Rightarrow> cfg \<Rightarrow> bool" where
  "name_in n CNone = False"
| "name_in n (CStr s) = sublist n s"
| "name_in n (CList xs) = (Str n \<in> set xs)"

text \<open>
  \<^verbatim>\<open>SerializerMeta._get_implicit_fields(model_fields, fields, exclude)\<close>; the field
  objects of the model are given by their names.
\<close>

definition get_implicit_fields :: "string list \<Rightarrow> cfg \<Rightarrow> cfg \<Rightarrow> cfg" where
  "get_implicit_fields model_fields flds excl =
     (if flds = CStr ''__all__'' then CList (map Obj model_fields)
      else if \<not> truthy flds \<and> truthy excl then
        CList (map Obj (filter (\<lambda>n. \<not> name_in n excl) model_fields))
      else flds)"

text \<open>
  The loop of \<^verbatim>\<open>SerializerMeta._update_direct_fields\<close>; \<open>dflt\<close> is the value of
  \<^verbatim>\<open>Field()\<close>, whose constructor is not among the sources.
\<close>

fun update_direct_loop ::
  "field \<Rightarrow> (string \<times> field) list \<Rightarrow> string list \<Rightarrow> item list \<Rightarrow> pyerr + (string \<times> field) list"
where
  "update_direct_loop dflt direct_fields explicit_fields [] = Inr direct_fields"
| "update_direct_loop dflt direct_fields explicit_fields (f # rest) =
     (case item_name f of
        Inl e \<Rightarrow> Inl e
      | Inr n \<Rightarrow>
          update_direct_loop dflt
            (if n \<notin> set explicit_fields then dict_set n dflt direct_fields else direct_fields)
            explicit_fields rest)"

text \<open>
  \<^verbatim>\<open>SerializerMeta._update_direct_fields(direct_fields, explicit_fields, implicit_fields)\<close>.
  The caller passes \<^verbatim>\<open>direct_fields.keys()\<close> as \<^verbatim>\<open>explicit_fields\<close>; here it is the list
  of the keys at the time of the call. (Where \<^verbatim>\<open>keys()\<close> is a live view, a name stored
  by the loop is skipped when it comes again instead of being stored again; the dict is
  the same either way.)
\<close>

definition update_direct_fields ::
  "field \<Rightarrow> (string \<times> field) list \<Rightarrow> string list \<Rightarrow> cfg \<Rightarrow> pyerr + (string \<times> field) list"
where
  "update_direct_fields dflt direct_fields explicit_fields implicit_fields =
     (case cfg_iter implicit_fields of
        Inl e \<Rightarrow> Inl e
      | Inr items \<Rightarrow> update_direct_loop dflt direct_fields explicit_fields items)"

text \<open>
  A class of the hierarchy, as the metaclass reads it: whether it is a subclass of
  \<^verbatim>\<open>SerializerBase\<close>, its \<^verbatim>\<open>_field_map\<close> and \<^verbatim>\<open>_compiled_fields\<close>, and the entries
  \<^verbatim>\<open>default_getter\<close> and \<^verbatim>\<open>Meta\<close> of its own namespace (\<open>None\<close> when it declares
  none). The entry \<^verbatim>\<open>Meta\<close> is \<open>Some (Some m)\<close> for a \<^verbatim>\<open>class Meta\<close> and \<open>Some None\<close>
  for \<^verbatim>\<open>Meta = None\<close>, which hides the \<^verbatim>\<open>Meta\<close> of the classes behind it in the MRO.
  \<^verbatim>\<open>SerializerBase\<close> declares \<^verbatim>\<open>_field_map = {}\<close> and the metaclass assigns
  \<^verbatim>\<open>_field_map\<close> to every class it builds, so each subclass of \<^verbatim>\<open>SerializerBase\<close>
  holds a field map of its own.
\<close>

record cls =
  is_serializer_base :: bool
  field_map :: "(string \<times> field) list"
  compiled_fields :: "compiled list"
  default_getter :: "(string \<Rightarrow> getter) option"
  Meta :: "meta option option"

text \<open>
  \<^verbatim>\<open>SerializerMeta._get_fields(direct_fields, serializer_cls)\<close>. \<open>mro\<close> is
  \<^verbatim>\<open>serializer_cls.__mro__\<close> without its first element, the class being built. That
  class comes last in the reversed order; its own \<^verbatim>\<open>_field_map\<close> is not assigned yet,
  so the attribute lookup finds the one of the nearest ancestor that is a
  \<^verbatim>\<open>SerializerBase\<close>, and the class is such a subclass when an ancestor is.
\<close>

definition get_fields :: "(string \<times> field) list \<Rightarrow> cls list \<Rightarrow> (string \<times> field) list" where
  "get_fields direct_fields mro =
     (let fm = fold (\<lambda>c m. if is_serializer_base c then dict_update m (field_map c) else m)
                 (rev mro) [];
          fm' = (case filter is_serializer_base mro of
                   [] \<Rightarrow> fm
                 | c # _ \<Rightarrow> dict_update fm (field_map c))
      in dict_update fm' direct_fields)"

text \<open>
  A value of the class namespace \<^verbatim>\<open>attrs\<close>: a \<^verbatim>\<open>Field\<close> instance, a \<^verbatim>\<open>class Meta\<close>, a
  getter factory such as \<^verbatim>\<open>operator.attrgetter\<close>, or anything else. The namespaces
  modelled bind the name \<^verbatim>\<open>Meta\<close> to a class or to a field, or to \<^verbatim>\<open>None\<close> (\<open>AOther\<close>),
  and the name \<^verbatim>\<open>default_getter\<close> to a getter factory or to a field.
\<close>

datatype attr = AField field | AClass meta | AGetter "string \<Rightarrow> getter" | AOther

text \<open>The first loop of \<^verbatim>\<open>SerializerMeta.__new__\<close>: the fields declared in the namespace.\<close>

definition declared_fields :: "(string \<times> attr) list \<Rightarrow> (string \<times> field) list" where
  "declared_fields attrs =
     fold (\<lambda>(attr_name, a) d. case a of AField f \<Rightarrow> dict_set attr_name f d | _ \<Rightarrow> d) attrs []"

text \<open>The second loop, \<^verbatim>\<open>del attrs[k]\<close> for every declared field.\<close>

definition del_fields :: "(string \<times> field) list \<Rightarrow> (string \<times> attr) list \<Rightarrow> (string \<times> attr) list" where
  "del_fields direct_fields attrs = filter (\<lambda>(k, a). k \<notin> fst ` set direct_fields) attrs"

text \<open>
  \<^verbatim>\<open>getattr(real_cls, 'Meta', None)\<close> and the lookup of \<^verbatim>\<open>real_cls.default_getter\<close>: the
  entry of the namespace, else the entry of the first class of the MRO that has one.
\<close>

definition lookup_Meta :: "(string \<times> attr) list \<Rightarrow> cls list \<Rightarrow> meta option" where
  "lookup_Meta attrs mro =
     (case map_of attrs ''Meta'' of
        Some (AClass m) \<Rightarrow> Some m
      | Some _ \<Rightarrow> None
      | None \<Rightarrow>
          (case filter (\<lambda>c. Meta c \<noteq> None) mro of
             [] \<Rightarrow> None
           | c # _ \<Rightarrow> (case Meta c of None \<Rightarrow> None | Some found \<Rightarrow> found)))"

definition lookup_default_getter :: "(string \<times> attr) list \<Rightarrow> cls list \<Rightarrow> (string \<Rightarrow> getter) option" where
  "lookup_default_getter attrs mro =
     (case map_of attrs ''default_getter'' of
        Some (AGetter g) \<Rightarrow> Some g
      | Some _ \<Rightarrow> None
      | None \<Rightarrow>
          (case filter (\<lambda>c. default_getter c \<noteq> None) mro of [] \<Rightarrow> None | c # _ \<Rightarrow> default_getter c))"

text \<open>
  The last four statements of \<^verbatim>\<open>SerializerMeta.__new__\<close>: merge, compile, store on
  the class.
\<close>

definition finish_class ::
  "(string \<times> attr) list \<Rightarrow> cls list \<Rightarrow> (string \<times> field) list \<Rightarrow> pyerr + cls" where
  "finish_class attrs mro direct_fields =
     (let fm = get_fields direct_fields mro in
      case compile_fields fm (lookup_default_getter attrs mro) of
        Inl e \<Rightarrow> Inl e
      | Inr compiled \<Rightarrow>
          Inr \<lparr>is_serializer_base = (\<exists>c \<in> set mro. is_serializer_base c),
               field_map = fm,
               compiled_fields = compiled,
               default_getter = (case map_of attrs ''default_getter'' of
                                   Some (AGetter g) \<Rightarrow> Some g | _ \<Rightarrow> None),
               Meta = (case map_of attrs ''Meta'' of
                         None \<Rightarrow> None
                       | Some (AClass m) \<Rightarrow> Some (Some m)
                       | Some _ \<Rightarrow> Some None)\<rparr>)"

text \<open>
  \<^verbatim>\<open>SerializerMeta.__new__(cls, name, bases, attrs)\<close>. The bases enter through \<open>mro\<close>,
  the MRO of the new class without the class itself; \<open>dflt\<close> is the value of
  \<^verbatim>\<open>Field()\<close>. The result is the new class or the exception raised; the messages
  are the source's without their backquotes.
\<close>

definition SerializerMeta_new :: "field \<Rightarrow> (string \<times> attr) list \<Rightarrow> cls list \<Rightarrow> pyerr + cls" where
  "SerializerMeta_new dflt attrs0 mro =
     (let direct_fields = declared_fields attrs0;
          attrs = del_fields direct_fields attrs0
      in case lookup_Meta attrs mro of
           None \<Rightarrow> finish_class attrs mro direct_fields
         | Some m \<Rightarrow>
             (case Meta_model m of
                None \<Rightarrow>
                  Inl (RuntimeError ''If you specifiy a Meta class, you need to specify a model'')
              | Some mdl \<Rightarrow>
                  if \<not> truthy (Meta_fields m) \<and> \<not> truthy (Meta_exclude m) then
                    Inl (RuntimeError ''You need to specifiy either fields or exclude in Meta'')
                  else if truthy (Meta_fields m) \<and> truthy (Meta_exclude m) then
                    Inl (RuntimeError ''fields and exclude prohibit each other.'')
                  else
                    (case django_fields mdl of
                       Some model_fields \<Rightarrow>
                         (case update_direct_fields dflt direct_fields (map fst direct_fields)
                                 (get_implicit_fields model_fields (Meta_fields m) (Meta_exclude m)) of
                            Inl e \<Rightarrow> Inl e
                          | Inr direct_fields' \<Rightarrow> finish_class attrs mro direct_fields')
                     | None \<Rightarrow>
                         (case sqla_columns mdl of
                            Some columns \<Rightarrow>
                              (case update_direct_fields dflt direct_fields (map fst direct_fields)
                                      (get_implicit_fields columns (Meta_fields m) (Meta_exclude m)) of
                                 Inl e \<Rightarrow> Inl e
                               | Inr direct_fields' \<Rightarrow> finish_class attrs mro direct_fields')
                          | None \<Rightarrow>
                              Inl (RuntimeError
                                     ''Cannot deduce your fields from your model declaration'')))))"

section \<open>The classes and getters of the module\<close>

text \<open>
  \<^verbatim>\<open>operator.attrgetter(name)\<close> for a name without dots, on objects given by their
  attributes (values of the builtin types are taken to have no attribute of that name),
  and \<^verbatim>\<open>operator.itemgetter(name)\<close> on dicts. Both take one argument.
\<close>

definition attrgetter :: "string \<Rightarrow> getter" where
  "attrgetter name self_arg obj =
     (case self_arg of
        Some s \<Rightarrow> Inl TypeError
      | None \<Rightarrow>
          (case obj of
             VObj d \<Rightarrow> (case map_of d name of Some v \<Rightarrow> Inr v | None \<Rightarrow> Inl AttributeError)
           | _ \<Rightarrow> Inl AttributeError))"

definition itemgetter :: "string \<Rightarrow> getter" where
  "itemgetter name self_arg obj =
     (case self_arg of
        Some s \<Rightarrow> Inl TypeError
      | None \<Rightarrow>
          (case obj of
             VDict d \<Rightarrow> (case map_of d name of Some v \<Rightarrow> Inr v | None \<Rightarrow> Inl KeyError)
           | _ \<Rightarrow> Inl TypeError))"

text \<open>
  The MRO of a class that derives from \<^verbatim>\<open>Serializer\<close> alone: \<^verbatim>\<open>Serializer\<close> (no
  fields, \<^verbatim>\<open>default_getter = operator.attrgetter\<close>), \<^verbatim>\<open>SerializerBase\<close>
  (\<^verbatim>\<open>_field_map = {}\<close>), \<^verbatim>\<open>Field\<close> and \<^verbatim>\<open>object\<close>.
\<close>

definition plain_class :: cls where
  "plain_class = \<lparr>is_serializer_base = False, field_map = [], compiled_fields = [],
                   default_getter = None, Meta = None\<rparr>"

definition SerializerBase_class :: cls where
  "SerializerBase_class = plain_class\<lparr>is_serializer_base := True\<rparr>"

definition Serializer_class :: cls where
  "Serializer_class = SerializerBase_class\<lparr>default_getter := Some attrgetter\<rparr>"

definition Serializer_mro :: "cls list" where
  "Serializer_mro = [Serializer_class, SerializerBase_class, plain_class, plain_class]"

text \<open>
  A field without a custom getter, a source name, a label or a transform, and not
  called, with the given \<^verbatim>\<open>required\<close> flag.
\<close>

definition basic_field :: "bool \<Rightarrow> field" where
  "basic_field req =
     \<lparr>attr = None, call = False, label = None, required = req,
      getter_takes_serializer = False, as_getter = (\<lambda>name. None),
      is_to_value_overridden = False, field_to_value = Inr\<rparr>"

section \<open>The merge of field maps, as the specification words it\<close>

text \<open>
  The implicit names of a class: the names of the elements that
  \<^verbatim>\<open>_update_direct_fields\<close> iterates over when the \<^verbatim>\<open>Meta\<close> found for the class has a
  model that lists its fields; no name when no \<^verbatim>\<open>Meta\<close> is found.
\<close>

fun item_names :: "item list \<Rightarrow> string list" where
  "item_names [] = []"
| "item_names (Str s # rest) = item_names rest"
| "item_names (Obj n # rest) = n # item_names rest"

definition implicit_names :: "meta option \<Rightarrow> string set" where
  "implicit_names found =
     (case found of
        None \<Rightarrow> {}
      | Some m \<Rightarrow>
          (case Meta_model m of
             None \<Rightarrow> {}
           | Some mdl \<Rightarrow>
               (case (case django_fields mdl of Some fs \<Rightarrow> Some fs | None \<Rightarrow> sqla_columns mdl) of
                  None \<Rightarrow> {}
                | Some model_fields \<Rightarrow>
                    (case cfg_iter (get_implicit_fields model_fields (Meta_fields m) (Meta_exclude m)) of
                       Inl e \<Rightarrow> {}
                     | Inr items \<Rightarrow> set (item_names items)))))"

text \<open>
  The union of the field maps of the ancestors that are serializers, where the
  descriptor of a nearer ancestor replaces the one of a more ancestral class. The list
  is in MRO order, nearest ancestor first.
\<close>

primrec ancestors_fields :: "cls list \<Rightarrow> string \<rightharpoonup> field" where
  "ancestors_fields [] = Map.empty"
| "ancestors_fields (c # cs) =
     (if is_serializer_base c then ancestors_fields cs ++ map_of (field_map c)
      else ancestors_fields cs)"

section \<open>Facts about dictionaries and the serialization loop\<close>

lemma dict_set_keys: "fst ` set (dict_set k x v) = insert k (fst ` set v)"
  by (induction v) auto

lemma map_of_dict_set: "map_of (dict_set k x v) = (map_of v)(k \<mapsto> x)"
  by (induction v) (auto simp: fun_eq_iff)

lemma serialize_loop_append:
  "serialize_loop self i (pre @ post) v =
     (case serialize_loop self i pre v of Inl e \<Rightarrow> Inl e | Inr v' \<Rightarrow> serialize_loop self i post v')"
proof (induction pre arbitrary: v)
  case Nil
  show ?case by simp
next
  case (Cons f pre)
  obtain name getter tv cl req ps where f: "f = (name, getter, tv, cl, req, ps)"
    by (cases f) auto
  show ?case
    unfolding f by (simp add: Cons.IH split: sum.split option.split)
qed

lemma serialize_loop_keeps:
  "serialize_loop self i flds v = Inr out \<Longrightarrow> k \<notin> fst ` set flds \<Longrightarrow> map_of out k = map_of v k"
proof (induction flds arbitrary: v)
  case Nil
  then show ?case by simp
next
  case (Cons f flds)
  obtain name getter tv cl req ps where f: "f = (name, getter, tv, cl, req, ps)"
    by (cases f) auto
  from Cons.prems(2) have nk: "name \<noteq> k" and rest: "k \<notin> fst ` set flds"
    by (auto simp: f)
  have step: "\<And>x v'. serialize_loop self i flds (dict_set name x v') = Inr out \<Longrightarrow>
                map_of out k = map_of v' k"
    using Cons.IH [OF _ rest] nk by (simp add: map_of_dict_set)
  from Cons.prems(1) show ?case
    unfolding f
    by (simp split: if_splits sum.splits option.splits add: step Cons.IH [OF _ rest])
qed

lemma serialize_split:
  "serialize self i (pre @ f # post) =
     (case serialize self i pre of Inl e \<Rightarrow> Inl e | Inr v \<Rightarrow> serialize_loop self i (f # post) v)"
  by (simp add: serialize_def serialize_loop_append)

lemma serialize_loop_stored:
  assumes "serialize_loop self i post (dict_set name x v) = Inr out" and "name \<notin> fst ` set post"
  shows "map_of out name = Some x"
  using serialize_loop_keeps [OF assms] by (simp add: map_of_dict_set)

section \<open>Execution of a compiled plan\<close>

text \<open>
  C1. A field with the default extractor (\<^verbatim>\<open>pass_self\<close> false) whose getter raises
  \<^verbatim>\<open>KeyError\<close> or \<^verbatim>\<open>AttributeError\<close> on the source instance. When the field is
  required, \<^verbatim>\<open>_serialize\<close> raises, and it raises that very exception when the fields
  before it succeed. When the field is not required, the result is the result of the
  plan without the field: no key is set for it, so its output name is not a key of the
  result unless another field of the plan has the same output name.
\<close>

theorem C1_missing_value_default_extractor:
  assumes miss: "getter None obj = Inl e"
    and kind: "e = KeyError \<or> e = AttributeError"
  shows "(\<exists>e'. serialize self obj (pre @ (name, getter, tv, cl, True, False) # post) = Inl e')
       \<and> (\<forall>v. serialize self obj pre = Inr v \<longrightarrow>
              serialize self obj (pre @ (name, getter, tv, cl, True, False) # post) = Inl e)
       \<and> serialize self obj (pre @ (name, getter, tv, cl, False, False) # post) =
           serialize self obj (pre @ post)
       \<and> (\<forall>out. name \<notin> fst ` set (pre @ post) \<longrightarrow>
              serialize self obj (pre @ (name, getter, tv, cl, False, False) # post) = Inr out \<longrightarrow>
              name \<notin> fst ` set out)"
proof -
  have req: "\<And>v. serialize_loop self obj ((name, getter, tv, cl, True, False) # post) v = Inl e"
    using miss kind by auto
  have opt: "\<And>v. serialize_loop self obj ((name, getter, tv, cl, False, False) # post) v =
                  serialize_loop self obj post v"
    using miss kind by auto
  have a: "\<exists>e'. serialize self obj (pre @ (name, getter, tv, cl, True, False) # post) = Inl e'"
    by (cases "serialize self obj pre") (simp_all add: serialize_split req del: serialize_loop.simps)
  have b: "\<forall>v. serialize self obj pre = Inr v \<longrightarrow>
              serialize self obj (pre @ (name, getter, tv, cl, True, False) # post) = Inl e"
    by (simp add: serialize_split req del: serialize_loop.simps)
  have c: "serialize self obj (pre @ (name, getter, tv, cl, False, False) # post) =
           serialize self obj (pre @ post)"
    by (cases "serialize_loop self obj pre []")
       (simp_all add: serialize_def serialize_loop_append opt del: serialize_loop.simps)
  have d: "\<forall>out. name \<notin> fst ` set (pre @ post) \<longrightarrow>
              serialize self obj (pre @ (name, getter, tv, cl, False, False) # post) = Inr out \<longrightarrow>
              name \<notin> fst ` set out"
  proof (intro allI impI)
    fix out
    assume fresh: "name \<notin> fst ` set (pre @ post)"
      and res: "serialize self obj (pre @ (name, getter, tv, cl, False, False) # post) = Inr out"
    from res have "serialize_loop self obj (pre @ post) [] = Inr out"
      unfolding c by (simp add: serialize_def)
    from serialize_loop_keeps [OF this fresh] have "map_of out name = None"
      by simp
    then show "name \<notin> fst ` set out"
      by (simp add: map_of_eq_None_iff)
  qed
  from a b c d show ?thesis by blast
qed

theorem C1_missing_value_default_extractor_witness:
  "attrgetter ''b'' None (VObj [(''a'', VInt 1)]) = Inl AttributeError
   \<and> serialize \<lparr>inst = VNone, many = False, data_cache = VNone\<rparr> (VObj [(''a'', VInt 1)])
       ([(''a'', attrgetter ''a'', None, False, True, False)]
        @ (''b'', attrgetter ''b'', None, False, True, False) # []) = Inl AttributeError
   \<and> serialize \<lparr>inst = VNone, many = False, data_cache = VNone\<rparr> (VObj [(''a'', VInt 1)])
       ([(''a'', attrgetter ''a'', None, False, True, False)]
        @ (''b'', attrgetter ''b'', None, False, False, False) # []) = Inr [(''a'', VInt 1)]
   \<and> ''b'' \<notin> fst ` set [(''a'', VInt 1)]"
proof -
  have miss: "attrgetter ''b'' None (VObj [(''a'', VInt 1)]) = Inl AttributeError"
    by (simp add: attrgetter_def)
  have pre: "serialize \<lparr>inst = VNone, many = False, data_cache = VNone\<rparr> (VObj [(''a'', VInt 1)])
               [(''a'', attrgetter ''a'', None, False, True, False)] = Inr [(''a'', VInt 1)]"
    by (simp add: serialize_def attrgetter_def)
  from C1_missing_value_default_extractor
    [where getter = "attrgetter ''b''" and obj = "VObj [(''a'', VInt 1)]" and e = AttributeError
       and self = "\<lparr>inst = VNone, many = False, data_cache = VNone\<rparr>"
       and pre = "[(''a'', attrgetter ''a'', None, False, True, False)]"
       and name = "''b''" and tv = None and cl = False and post = "[]", OF miss]
  show ?thesis using miss pre by simp
qed

text \<open>
  C3. A required field with the default extractor whose getter returns a value \<open>r\<close>,
  whatever \<open>r\<close> is: the value is called when the field says so, transformed when a
  transform is compiled in, and stored under the output name. Zero, false and the empty
  string take this path as every other value does; without call and transform the
  stored value is \<open>r\<close> itself.
\<close>

theorem C3_required_present_value_included:
  assumes got: "getter None obj = Inr r"
    and called: "(if cl then call_value r else Inr r) = Inr r1"
    and transformed: "(case tv of None \<Rightarrow> Inr r1 | Some t \<Rightarrow> t r1) = Inr r2"
    and before: "serialize self obj pre = Inr v"
  shows "serialize self obj (pre @ (name, getter, tv, cl, True, False) # post) =
           serialize_loop self obj post (dict_set name r2 v)
       \<and> (\<forall>out. serialize self obj (pre @ (name, getter, tv, cl, True, False) # post) = Inr out \<longrightarrow>
              name \<notin> fst ` set post \<longrightarrow> map_of out name = Some r2)
       \<and> (\<not> cl \<and> tv = None \<longrightarrow> r2 = r)"
proof -
  have step: "serialize_loop self obj ((name, getter, tv, cl, True, False) # post) v =
                serialize_loop self obj post (dict_set name r2 v)"
    using got called transformed by simp
  have a: "serialize self obj (pre @ (name, getter, tv, cl, True, False) # post) =
             serialize_loop self obj post (dict_set name r2 v)"
    by (simp add: serialize_split before step del: serialize_loop.simps)
  have b: "\<forall>out. serialize self obj (pre @ (name, getter, tv, cl, True, False) # post) = Inr out \<longrightarrow>
              name \<notin> fst ` set post \<longrightarrow> map_of out name = Some r2"
    unfolding a by (blast intro: serialize_loop_stored)
  have c: "\<not> cl \<and> tv = None \<longrightarrow> r2 = r"
    using called transformed by auto
  from a b c show ?thesis by blast
qed

theorem C3_required_present_value_included_witness:
  "itemgetter ''n'' None (VDict [(''n'', VInt 0), (''b'', VBool False), (''s'', VStr [])]) = Inr (VInt 0)
   \<and> serialize \<lparr>inst = VNone, many = False, data_cache = VNone\<rparr>
        (VDict [(''n'', VInt 0), (''b'', VBool False), (''s'', VStr [])])
        ([] @ (''n'', itemgetter ''n'', None, False, True, False)
          # [(''b'', itemgetter ''b'', None, False, True, False),
             (''s'', itemgetter ''s'', None, False, True, False)])
      = Inr [(''n'', VInt 0), (''b'', VBool False), (''s'', VStr [])]
   \<and> map_of [(''n'', VInt 0), (''b'', VBool False), (''s'', VStr [])] ''n'' = Some (VInt 0)"
proof -
  have got: "itemgetter ''n'' None (VDict [(''n'', VInt 0), (''b'', VBool False), (''s'', VStr [])])
               = Inr (VInt 0)"
    by (simp add: itemgetter_def)
  have called: "(if False then call_value (VInt 0) else Inr (VInt 0)) = Inr (VInt 0)"
    by simp
  have transformed:
    "(case None :: (pyval \<Rightarrow> pyerr + pyval) option of None \<Rightarrow> Inr (VInt 0) | Some t \<Rightarrow> t (VInt 0))
       = Inr (VInt 0)"
    by simp
  have before: "serialize \<lparr>inst = VNone, many = False, data_cache = VNone\<rparr>
                  (VDict [(''n'', VInt 0), (''b'', VBool False), (''s'', VStr [])]) [] = Inr []"
    by (simp add: serialize_def)
  from C3_required_present_value_included
    [where getter = "itemgetter ''n''" and name = "''n''"
       and post = "[(''b'', itemgetter ''b'', None, False, True, False),
                    (''s'', itemgetter ''s'', None, False, True, False)]",
     OF got called transformed before]
  show ?thesis using got by (simp add: itemgetter_def)
qed

text \<open>
  C9. A field whose getter takes the serializer (\<^verbatim>\<open>pass_self\<close> true): the getter is
  called with the serializer instance and the source instance, and its result is stored
  as it is. The flags \<^verbatim>\<open>call\<close> and \<^verbatim>\<open>required\<close> and the transform play no part: an
  exception of the getter, \<^verbatim>\<open>KeyError\<close> and \<^verbatim>\<open>AttributeError\<close> included, is raised
  whether or not the field is required.
\<close>

theorem C9_getter_taking_serializer:
  assumes before: "serialize self obj pre = Inr v"
  shows "serialize self obj (pre @ (name, getter, tv, cl, req, True) # post) =
           (case getter (Some self) obj of
              Inl e \<Rightarrow> Inl e
            | Inr r \<Rightarrow> serialize_loop self obj post (dict_set name r v))
       \<and> (\<forall>e. getter (Some self) obj = Inl e \<longrightarrow>
              serialize self obj (pre @ (name, getter, tv, cl, req, True) # post) = Inl e)
       \<and> (\<forall>r out. getter (Some self) obj = Inr r \<longrightarrow>
              serialize self obj (pre @ (name, getter, tv, cl, req, True) # post) = Inr out \<longrightarrow>
              name \<notin> fst ` set post \<longrightarrow> map_of out name = Some r)"
proof -
  have a: "serialize self obj (pre @ (name, getter, tv, cl, req, True) # post) =
           (case getter (Some self) obj of
              Inl e \<Rightarrow> Inl e
            | Inr r \<Rightarrow> serialize_loop self obj post (dict_set name r v))"
    by (simp add: serialize_split before)
  have b: "\<forall>e. getter (Some self) obj = Inl e \<longrightarrow>
              serialize self obj (pre @ (name, getter, tv, cl, req, True) # post) = Inl e"
    unfolding a by simp
  have c: "\<forall>r out. getter (Some self) obj = Inr r \<longrightarrow>
              serialize self obj (pre @ (name, getter, tv, cl, req, True) # post) = Inr out \<longrightarrow>
              name \<notin> fst ` set post \<longrightarrow> map_of out name = Some r"
    unfolding a by (auto intro: serialize_loop_stored)
  from a b c show ?thesis by blast
qed

theorem C9_getter_taking_serializer_witness:
  "serialize \<lparr>inst = VNone, many = True, data_cache = VNone\<rparr> VNone [] = Inr []
   \<and> serialize \<lparr>inst = VNone, many = True, data_cache = VNone\<rparr> VNone
        ([] @ (''m'', (\<lambda>s i. case s of None \<Rightarrow> Inl TypeError | Some x \<Rightarrow> Inr (VBool (many x))),
               Some (\<lambda>x. Inl TypeError), True, True, True) # [])
      = Inr [(''m'', VBool True)]
   \<and> serialize \<lparr>inst = VNone, many = True, data_cache = VNone\<rparr> VNone
        ([] @ (''m'', (\<lambda>s i. Inl KeyError), None, False, False, True) # [])
      = Inl KeyError"
proof -
  have before: "serialize \<lparr>inst = VNone, many = True, data_cache = VNone\<rparr> VNone [] = Inr []"
    by (simp add: serialize_def)
  from C9_getter_taking_serializer
    [OF before, where name = "''m''"
       and getter = "\<lambda>s i. case s of None \<Rightarrow> Inl TypeError | Some x \<Rightarrow> Inr (VBool (many x))"
       and tv = "Some (\<lambda>x. Inl TypeError)" and cl = True and req = True and post = "[]"]
    C9_getter_taking_serializer
    [OF before, where name = "''m''" and getter = "\<lambda>s i. Inl KeyError"
       and tv = None and cl = False and req = False and post = "[]"]
  show ?thesis using before by simp
qed

text \<open>
  C10. A field that is not required, with the default extractor, whose getter returns
  \<^verbatim>\<open>None\<close>: the key is set, to \<^verbatim>\<open>None\<close>. The value is neither called nor
  transformed, whatever the flag \<^verbatim>\<open>call\<close> and the transform are.
\<close>

theorem C10_optional_none_is_stored:
  assumes got: "getter None obj = Inr VNone"
    and before: "serialize self obj pre = Inr v"
  shows "serialize self obj (pre @ (name, getter, tv, cl, False, False) # post) =
           serialize_loop self obj post (dict_set name VNone v)
       \<and> (\<forall>out. serialize self obj (pre @ (name, getter, tv, cl, False, False) # post) = Inr out \<longrightarrow>
              name \<notin> fst ` set post \<longrightarrow> map_of out name = Some VNone)"
proof -
  have a: "serialize self obj (pre @ (name, getter, tv, cl, False, False) # post) =
             serialize_loop self obj post (dict_set name VNone v)"
    by (simp add: serialize_split before got)
  have b: "\<forall>out. serialize self obj (pre @ (name, getter, tv, cl, False, False) # post) = Inr out \<longrightarrow>
              name \<notin> fst ` set post \<longrightarrow> map_of out name = Some VNone"
    unfolding a by (blast intro: serialize_loop_stored)
  from a b show ?thesis by blast
qed

theorem C10_optional_none_is_stored_witness:
  "attrgetter ''x'' None (VObj [(''x'', VNone)]) = Inr VNone
   \<and> serialize \<lparr>inst = VNone, many = False, data_cache = VNone\<rparr> (VObj [(''x'', VNone)]) [] = Inr []
   \<and> serialize \<lparr>inst = VNone, many = False, data_cache = VNone\<rparr> (VObj [(''x'', VNone)])
        ([] @ (''x'', attrgetter ''x'', Some (\<lambda>x. Inl TypeError), True, False, False) # [])
      = Inr [(''x'', VNone)]
   \<and> map_of [(''x'', VNone)] ''x'' = Some VNone"
proof -
  have got: "attrgetter ''x'' None (VObj [(''x'', VNone)]) = Inr VNone"
    by (simp add: attrgetter_def)
  have before: "serialize \<lparr>inst = VNone, many = False, data_cache = VNone\<rparr>
                  (VObj [(''x'', VNone)]) [] = Inr []"
    by (simp add: serialize_def)
  from C10_optional_none_is_stored
    [where getter = "attrgetter ''x''" and name = "''x''"
       and tv = "Some (\<lambda>x. Inl TypeError)" and cl = True and post = "[]", OF got before]
  show ?thesis using got before by simp
qed

text \<open>
  C8. With \<^verbatim>\<open>many\<close> set, \<^verbatim>\<open>to_value\<close> serializes the elements of the collection in
  the order the iteration yields them and returns the list of their output dicts, in
  that order.
\<close>

theorem C8_many_serializes_in_order:
  assumes batch: "many self"
    and elems: "py_iter coll = Inr xs"
    and each: "\<forall>x \<in> set xs. serialize self x flds = Inr (out x)"
  shows "to_value flds self coll = Inr (VList (map (\<lambda>x. VDict (out x)) xs))"
proof -
  from each have "serialize_all self flds xs = Inr (map (\<lambda>x. VDict (out x)) xs)"
    by (induction xs) simp_all
  with batch elems show ?thesis
    by (simp add: to_value_def)
qed

theorem C8_many_serializes_in_order_witness:
  "many \<lparr>inst = VNone, many = True, data_cache = VNone\<rparr>
   \<and> py_iter (VList [VDict [(''k'', VInt 1)], VDict [(''k'', VInt 2)], VDict [(''k'', VInt 3)]])
       = Inr [VDict [(''k'', VInt 1)], VDict [(''k'', VInt 2)], VDict [(''k'', VInt 3)]]
   \<and> serialize \<lparr>inst = VNone, many = True, data_cache = VNone\<rparr> (VDict [(''k'', VInt 1)])
        [(''k'', itemgetter ''k'', None, False, True, False)] = Inr [(''k'', VInt 1)]
   \<and> serialize \<lparr>inst = VNone, many = True, data_cache = VNone\<rparr> (VDict [(''k'', VInt 2)])
        [(''k'', itemgetter ''k'', None, False, True, False)] = Inr [(''k'', VInt 2)]
   \<and> serialize \<lparr>inst = VNone, many = True, data_cache = VNone\<rparr> (VDict [(''k'', VInt 3)])
        [(''k'', itemgetter ''k'', None, False, True, False)] = Inr [(''k'', VInt 3)]
   \<and> to_value [(''k'', itemgetter ''k'', None, False, True, False)]
        \<lparr>inst = VNone, many = True, data_cache = VNone\<rparr>
        (VList [VDict [(''k'', VInt 1)], VDict [(''k'', VInt 2)], VDict [(''k'', VInt 3)]])
      = Inr (VList [VDict [(''k'', VInt 1)], VDict [(''k'', VInt 2)], VDict [(''k'', VInt 3)]])"
proof -
  have batch: "many \<lparr>inst = VNone, many = True, data_cache = VNone\<rparr>"
    by simp
  have elems:
    "py_iter (VList [VDict [(''k'', VInt 1)], VDict [(''k'', VInt 2)], VDict [(''k'', VInt 3)]])
       = Inr [VDict [(''k'', VInt 1)], VDict [(''k'', VInt 2)], VDict [(''k'', VInt 3)]]"
    by simp
  have each:
    "\<forall>x \<in> set [VDict [(''k'', VInt 1)], VDict [(''k'', VInt 2)], VDict [(''k'', VInt 3)]].
       serialize \<lparr>inst = VNone, many = True, data_cache = VNone\<rparr> x
         [(''k'', itemgetter ''k'', None, False, True, False)]
       = Inr (case x of VDict d \<Rightarrow> d | _ \<Rightarrow> [])"
    by (simp add: serialize_def itemgetter_def)
  from C8_many_serializes_in_order [OF batch elems each] each
  show ?thesis by simp
qed

text \<open>
  C4. A successful access to \<^verbatim>\<open>data\<close> leaves the instance in a state in which every
  further access returns the same value and changes nothing, whatever the compiled
  fields and the source instance are by then: nothing is extracted again. When the
  cache was empty, the value is that of \<^verbatim>\<open>to_value\<close> on \<^verbatim>\<open>self.instance\<close> and it is
  stored in the cache; otherwise it is the cached value.
\<close>

theorem C4_data_computed_once:
  assumes first: "data flds self = Inr (d, self')"
  shows "data flds self' = Inr (d, self')
       \<and> (\<forall>flds' i. data flds' (self'\<lparr>inst := i\<rparr>) = Inr (d, self'\<lparr>inst := i\<rparr>))
       \<and> (data_cache self = VNone \<longrightarrow>
            to_value flds self (inst self) = Inr d \<and> self' = self\<lparr>data_cache := d\<rparr>)
       \<and> (data_cache self \<noteq> VNone \<longrightarrow> d = data_cache self \<and> self' = self)"
proof -
  have not_none: "\<And>i x. to_value flds self i = Inr x \<Longrightarrow> x \<noteq> VNone"
    by (auto simp: to_value_def split: if_splits sum.splits)
  have cached: "data_cache self' = d \<and> d \<noteq> VNone"
    using first not_none [of "inst self"]
    by (auto simp: data_def split: if_splits sum.splits)
  have a: "data flds self' = Inr (d, self')"
    using cached by (simp add: data_def)
  have b: "\<forall>flds' i. data flds' (self'\<lparr>inst := i\<rparr>) = Inr (d, self'\<lparr>inst := i\<rparr>)"
    using cached by (simp add: data_def)
  have c: "data_cache self = VNone \<longrightarrow>
            to_value flds self (inst self) = Inr d \<and> self' = self\<lparr>data_cache := d\<rparr>"
    using first by (auto simp: data_def split: sum.splits)
  have e: "data_cache self \<noteq> VNone \<longrightarrow> d = data_cache self \<and> self' = self"
    using first by (auto simp: data_def)
  from a b c e show ?thesis by blast
qed

theorem C4_data_computed_once_witness:
  "data [(''k'', itemgetter ''k'', None, False, True, False)]
     \<lparr>inst = VDict [(''k'', VInt 1)], many = False, data_cache = VNone\<rparr>
     = Inr (VDict [(''k'', VInt 1)],
            \<lparr>inst = VDict [(''k'', VInt 1)], many = False, data_cache = VDict [(''k'', VInt 1)]\<rparr>)
   \<and> data [(''k'', itemgetter ''k'', None, False, True, False)]
       \<lparr>inst = VDict [(''k'', VInt 1)], many = False, data_cache = VDict [(''k'', VInt 1)]\<rparr>
     = Inr (VDict [(''k'', VInt 1)],
            \<lparr>inst = VDict [(''k'', VInt 1)], many = False, data_cache = VDict [(''k'', VInt 1)]\<rparr>)"
proof -
  have first:
    "data [(''k'', itemgetter ''k'', None, False, True, False)]
       \<lparr>inst = VDict [(''k'', VInt 1)], many = False, data_cache = VNone\<rparr>
     = Inr (VDict [(''k'', VInt 1)],
            \<lparr>inst = VDict [(''k'', VInt 1)], many = False, data_cache = VDict [(''k'', VInt 1)]\<rparr>)"
    by (simp add: data_def to_value_def serialize_def itemgetter_def)
  from C4_data_computed_once [OF first] first show ?thesis by simp
qed

section \<open>Merging the field maps\<close>

lemma distinct_dict_set: "distinct (map fst d) \<Longrightarrow> distinct (map fst (dict_set k x d))"
proof (induction d)
  case Nil
  show ?case by simp
next
  case (Cons p d)
  then show ?case
    using dict_set_keys [of k x d] by (cases "fst p = k") simp_all
qed

lemma distinct_dict_update: "distinct (map fst d) \<Longrightarrow> distinct (map fst (dict_update d other))"
  unfolding dict_update_def
proof (induction other arbitrary: d)
  case Nil
  then show ?case by simp
next
  case (Cons p ps)
  obtain k x where p: "p = (k, x)" by (cases p)
  from Cons.prems have "distinct (map fst (dict_set k x d))"
    by (rule distinct_dict_set)
  from Cons.IH [OF this] show ?case by (simp add: p)
qed

lemma dict_update_keys: "fst ` set (dict_update d other) = fst ` set d \<union> fst ` set other"
  unfolding dict_update_def
proof (induction other arbitrary: d)
  case Nil
  show ?case by simp
next
  case (Cons p ps)
  obtain k x where p: "p = (k, x)" by (cases p)
  have "fst ` set (fold (\<lambda>(k, v). dict_set k v) ps (dict_set k x d))
          = insert k (fst ` set d) \<union> fst ` set ps"
    unfolding Cons.IH dict_set_keys ..
  then show ?case by (simp add: p)
qed

lemma map_of_dict_update:
  "distinct (map fst other) \<Longrightarrow> map_of (dict_update d other) = map_of d ++ map_of other"
  unfolding dict_update_def
proof (induction other arbitrary: d)
  case Nil
  show ?case by simp
next
  case (Cons p ps)
  obtain k x where p: "p = (k, x)" by (cases p)
  from Cons.prems have fresh: "map_of ps k = None" and rest: "distinct (map fst ps)"
    by (auto simp: p map_of_eq_None_iff)
  show ?case
    using fresh by (auto simp: p Cons.IH [OF rest] map_of_dict_set fun_eq_iff map_add_def
                         split: option.splits)
qed

text \<open>The loop of \<^verbatim>\<open>_get_fields\<close> over the ancestors, as a map.\<close>

lemma fold_ancestors:
  assumes "\<forall>c \<in> set mro. distinct (map fst (field_map c))"
  shows "map_of (fold (\<lambda>c m. if is_serializer_base c then dict_update m (field_map c) else m)
                   (rev mro) []) = ancestors_fields mro"
  using assms by (induction mro) (simp_all add: map_of_dict_update)

lemma fold_ancestors_keys:
  "fst ` set (fold (\<lambda>c m. if is_serializer_base c then dict_update m (field_map c) else m)
                (rev mro) [])
   = (\<Union>c \<in> {c \<in> set mro. is_serializer_base c}. fst ` set (field_map c))"
  by (induction mro) (auto simp: dict_update_keys)

lemma fold_ancestors_distinct:
  "distinct (map fst (fold (\<lambda>c m. if is_serializer_base c then dict_update m (field_map c) else m)
                        (rev mro) []))"
  by (induction mro) (simp_all add: distinct_dict_update)

text \<open>Storing the nearest serializer's field map once more changes nothing.\<close>

lemma map_add_twice: "m ++ x ++ x = m ++ x"
  by (simp add: map_add_def fun_eq_iff split: option.split)

lemma ancestors_fields_nearest:
  "filter is_serializer_base mro = c # cs \<Longrightarrow>
   ancestors_fields mro ++ map_of (field_map c) = ancestors_fields mro"
  by (induction mro) (auto simp: map_add_twice split: if_splits)

lemma distinct_declared_fields: "distinct (map fst (declared_fields attrs))"
proof -
  have "\<And>d. distinct (map fst d) \<Longrightarrow>
          distinct (map fst (fold (\<lambda>(attr_name, a) d.
             case a of AField f \<Rightarrow> dict_set attr_name f d | _ \<Rightarrow> d) attrs d))"
    by (induction attrs) (auto simp: distinct_dict_set split: attr.splits)
  then show ?thesis by (simp add: declared_fields_def)
qed

lemma map_of_get_fields:
  assumes "\<forall>c \<in> set mro. distinct (map fst (field_map c))" and "distinct (map fst direct)"
  shows "map_of (get_fields direct mro) = ancestors_fields mro ++ map_of direct"
proof (cases "filter is_serializer_base mro")
  case Nil
  then show ?thesis
    using assms by (simp add: get_fields_def Let_def map_of_dict_update fold_ancestors)
next
  case (Cons c cs)
  then have "c \<in> set (filter is_serializer_base mro)" by simp
  then have "distinct (map fst (field_map c))" using assms(1) by simp
  then show ?thesis
    using assms Cons
    by (simp add: get_fields_def Let_def map_of_dict_update fold_ancestors
                  ancestors_fields_nearest)
qed

lemma get_fields_keys:
  "fst ` set (get_fields direct mro)
   = (\<Union>c \<in> {c \<in> set mro. is_serializer_base c}. fst ` set (field_map c)) \<union> fst ` set direct"
proof (cases "filter is_serializer_base mro")
  case Nil
  then show ?thesis
    by (simp add: get_fields_def Let_def dict_update_keys fold_ancestors_keys)
next
  case (Cons c cs)
  then have "c \<in> set (filter is_serializer_base mro)" by simp
  then have "c \<in> set mro" "is_serializer_base c" by simp_all
  then show ?thesis
    using Cons by (auto simp: get_fields_def Let_def dict_update_keys fold_ancestors_keys)
qed

lemma get_fields_distinct: "distinct (map fst (get_fields direct mro))"
  by (simp add: get_fields_def Let_def distinct_dict_update fold_ancestors_distinct
           split: list.split)

lemma finish_class_field_map:
  "finish_class attrs mro direct = Inr c \<Longrightarrow> field_map c = get_fields direct mro"
  by (cases "compile_fields (get_fields direct mro) (lookup_default_getter attrs mro)")
     (auto simp: finish_class_def Let_def)

lemma new_with_Meta:
  assumes "lookup_Meta (del_fields (declared_fields attrs) attrs) mro = Some m"
  shows "SerializerMeta_new dflt attrs mro =
     (case Meta_model m of
        None \<Rightarrow> Inl (RuntimeError ''If you specifiy a Meta class, you need to specify a model'')
      | Some mdl \<Rightarrow>
          if \<not> truthy (Meta_fields m) \<and> \<not> truthy (Meta_exclude m) then
            Inl (RuntimeError ''You need to specifiy either fields or exclude in Meta'')
          else if truthy (Meta_fields m) \<and> truthy (Meta_exclude m) then
            Inl (RuntimeError ''fields and exclude prohibit each other.'')
          else
            (case (case django_fields mdl of Some fs \<Rightarrow> Some fs | None \<Rightarrow> sqla_columns mdl) of
               Some model_fields \<Rightarrow>
                 (case update_direct_fields dflt (declared_fields attrs)
                         (map fst (declared_fields attrs))
                         (get_implicit_fields model_fields (Meta_fields m) (Meta_exclude m)) of
                    Inl e \<Rightarrow> Inl e
                  | Inr direct_fields' \<Rightarrow>
                      finish_class (del_fields (declared_fields attrs) attrs) mro direct_fields')
             | None \<Rightarrow>
                 Inl (RuntimeError ''Cannot deduce your fields from your model declaration'')))"
  unfolding SerializerMeta_new_def Let_def assms option.case
  by (cases "Meta_model m"; cases "django_fields (the (Meta_model m))") simp_all

lemma new_without_Meta:
  assumes "lookup_Meta (del_fields (declared_fields attrs) attrs) mro = None"
    and "SerializerMeta_new dflt attrs mro = Inr c"
  shows "field_map c = get_fields (declared_fields attrs) mro"
proof -
  from assms have "finish_class (del_fields (declared_fields attrs) attrs) mro
                     (declared_fields attrs) = Inr c"
    by (simp add: SerializerMeta_new_def Let_def)
  then show ?thesis by (rule finish_class_field_map)
qed

text \<open>
  What the loop of \<^verbatim>\<open>_update_direct_fields\<close> leaves in the dict: the default field
  under every name of the list that is not among the explicit ones, and the former
  entries elsewhere.
\<close>

lemma update_direct_loop_result:
  "update_direct_loop dflt d ex items = Inr d' \<Longrightarrow>
     (\<forall>k. map_of d' k =
            (if k \<in> set (item_names items) \<and> k \<notin> set ex then Some dflt else map_of d k))
     \<and> (distinct (map fst d) \<longrightarrow> distinct (map fst d'))"
proof (induction items arbitrary: d)
  case Nil
  then show ?case by simp
next
  case (Cons it items)
  show ?case
  proof (cases it)
    case (Str s)
    with Cons.prems show ?thesis by simp
  next
    case (Obj n)
    let ?d = "if n \<notin> set ex then dict_set n dflt d else d"
    from Cons.prems Obj have rest: "update_direct_loop dflt ?d ex items = Inr d'"
      by simp
    have stored: "\<forall>k. map_of ?d k = (if k = n \<and> n \<notin> set ex then Some dflt else map_of d k)"
      by (simp add: map_of_dict_set)
    have dist: "distinct (map fst d) \<longrightarrow> distinct (map fst ?d)"
      by (simp add: distinct_dict_set)
    from Cons.IH [OF rest]
    have later: "\<forall>k. map_of d' k =
                   (if k \<in> set (item_names items) \<and> k \<notin> set ex then Some dflt else map_of ?d k)"
      and later_dist: "distinct (map fst ?d) \<longrightarrow> distinct (map fst d')"
      by blast+
    have "map_of d' k =
            (if k \<in> set (item_names (it # items)) \<and> k \<notin> set ex then Some dflt else map_of d k)"
      for k
      using later [rule_format, of k] stored [rule_format, of k]
      by (cases "k = n") (simp_all add: Obj map_of_dict_set)
    moreover have "distinct (map fst d) \<longrightarrow> distinct (map fst d')"
      using dist later_dist by blast
    ultimately show ?thesis by blast
  qed
qed

text \<open>
  The direct fields that \<^verbatim>\<open>__new__\<close> hands to \<^verbatim>\<open>_get_fields\<close>: the declared fields,
  and the default field under every implicit name that is not declared.
\<close>

lemma new_direct_fields:
  assumes built: "SerializerMeta_new dflt attrs mro = Inr c"
  shows "\<exists>direct. field_map c = get_fields direct mro \<and> distinct (map fst direct)
           \<and> (\<forall>k. map_of direct k =
                 (if k \<in> implicit_names (lookup_Meta (del_fields (declared_fields attrs) attrs) mro)
                     \<and> k \<notin> fst ` set (declared_fields attrs)
                  then Some dflt else map_of (declared_fields attrs) k))"
proof (cases "lookup_Meta (del_fields (declared_fields attrs) attrs) mro")
  case None
  from new_without_Meta [OF None built]
  have "field_map c = get_fields (declared_fields attrs) mro" .
  then show ?thesis
    using distinct_declared_fields [of attrs] by (auto simp: None implicit_names_def)
next
  case (Some m)
  note run = built [unfolded new_with_Meta [OF Some]]
  from run obtain mdl where model: "Meta_model m = Some mdl"
    by (cases "Meta_model m") simp_all
  from run model obtain model_fields where
    listed: "(case django_fields mdl of Some fs \<Rightarrow> Some fs | None \<Rightarrow> sqla_columns mdl)
               = Some model_fields"
    by (cases "case django_fields mdl of Some fs \<Rightarrow> Some fs | None \<Rightarrow> sqla_columns mdl")
       (simp_all split: if_splits)
  let ?implicit = "get_implicit_fields model_fields (Meta_fields m) (Meta_exclude m)"
  from run model listed obtain direct where
    updated: "update_direct_fields dflt (declared_fields attrs) (map fst (declared_fields attrs))
                ?implicit = Inr direct"
    and finished: "finish_class (del_fields (declared_fields attrs) attrs) mro direct = Inr c"
    by (cases "update_direct_fields dflt (declared_fields attrs)
                 (map fst (declared_fields attrs)) ?implicit")
       (simp_all split: if_splits)
  from updated obtain items where
    iterated: "cfg_iter ?implicit = Inr items"
    and looped: "update_direct_loop dflt (declared_fields attrs)
                   (map fst (declared_fields attrs)) items = Inr direct"
    by (cases "cfg_iter ?implicit") (simp_all add: update_direct_fields_def)
  have names: "implicit_names (Some m) = set (item_names items)"
    by (simp add: implicit_names_def model listed iterated)
  from update_direct_loop_result [OF looped] distinct_declared_fields [of attrs]
  have "distinct (map fst direct)"
    and "\<forall>k. map_of direct k =
           (if k \<in> set (item_names items) \<and> k \<notin> fst ` set (declared_fields attrs)
            then Some dflt else map_of (declared_fields attrs) k)"
    by simp_all
  with finish_class_field_map [OF finished] show ?thesis
    unfolding Some names by blast
qed

text \<open>
  C2, as amended. Let the metaclass build a class from a namespace and the MRO of its
  ancestors, whose field maps are dicts. The names of its field map are the names of
  the ancestors' field maps, the names of the fields declared in the namespace and the
  implicit names of the \<^verbatim>\<open>Meta\<close> found for the class, its own or an inherited one. A
  name declared in the namespace has the declared descriptor. A name that is neither
  declared nor implicit has the descriptor of the nearest ancestor that holds it, whole.
  An implicit name that neither the namespace nor an ancestor holds has the default
  field. When no \<^verbatim>\<open>Meta\<close> is found, the field map is the ancestors' field maps
  overlaid from the most ancestral to the nearest and then by the declared fields. No
  name comes twice.
\<close>

theorem C2_field_map_of_built_class:
  assumes built: "SerializerMeta_new dflt attrs mro = Inr c"
    and dicts: "\<forall>a \<in> set mro. distinct (map fst (field_map a))"
  shows "fst ` set (field_map c)
           = (\<Union>a \<in> {a \<in> set mro. is_serializer_base a}. fst ` set (field_map a))
             \<union> fst ` set (declared_fields attrs)
             \<union> implicit_names (lookup_Meta (del_fields (declared_fields attrs) attrs) mro)
       \<and> (\<forall>k \<in> fst ` set (declared_fields attrs).
             map_of (field_map c) k = map_of (declared_fields attrs) k)
       \<and> (\<forall>k. k \<notin> fst ` set (declared_fields attrs) \<longrightarrow>
               k \<notin> implicit_names (lookup_Meta (del_fields (declared_fields attrs) attrs) mro) \<longrightarrow>
               map_of (field_map c) k = ancestors_fields mro k)
       \<and> (\<forall>k \<in> implicit_names (lookup_Meta (del_fields (declared_fields attrs) attrs) mro).
             k \<notin> fst ` set (declared_fields attrs) \<longrightarrow> ancestors_fields mro k = None \<longrightarrow>
             map_of (field_map c) k = Some dflt)
       \<and> (lookup_Meta (del_fields (declared_fields attrs) attrs) mro = None \<longrightarrow>
             map_of (field_map c) = ancestors_fields mro ++ map_of (declared_fields attrs))
       \<and> distinct (map fst (field_map c))"
proof -
  let ?declared = "declared_fields attrs"
  let ?implicit = "implicit_names (lookup_Meta (del_fields (declared_fields attrs) attrs) mro)"
  from new_direct_fields [OF built] obtain direct where
    stored: "field_map c = get_fields direct mro"
    and dist: "distinct (map fst direct)"
    and entries: "\<And>k. map_of direct k =
                    (if k \<in> ?implicit \<and> k \<notin> fst ` set ?declared then Some dflt
                     else map_of ?declared k)"
    by blast
  have merged: "map_of (field_map c) = ancestors_fields mro ++ map_of direct"
    unfolding stored using dicts dist by (rule map_of_get_fields)
  have direct_names: "fst ` set direct = fst ` set ?declared \<union> ?implicit"
  proof -
    have "k \<in> fst ` set direct \<longleftrightarrow> k \<in> fst ` set ?declared \<union> ?implicit" for k
    proof -
      have "k \<in> fst ` set direct \<longleftrightarrow> map_of direct k \<noteq> None"
        by (simp add: map_of_eq_None_iff)
      also have "\<dots> \<longleftrightarrow> k \<in> fst ` set ?declared \<union> ?implicit"
        unfolding entries by (cases "k \<in> fst ` set ?declared") (simp_all add: map_of_eq_None_iff)
      finally show ?thesis .
    qed
    then show ?thesis by blast
  qed
  have names: "fst ` set (field_map c)
                 = (\<Union>a \<in> {a \<in> set mro. is_serializer_base a}. fst ` set (field_map a))
                   \<union> fst ` set ?declared \<union> ?implicit"
    unfolding stored get_fields_keys direct_names by (simp add: Un_assoc)
  have own: "\<forall>k \<in> fst ` set ?declared. map_of (field_map c) k = map_of ?declared k"
  proof
    fix k
    assume "k \<in> fst ` set ?declared"
    then obtain f where "map_of ?declared k = Some f"
      by (cases "map_of ?declared k") (simp_all add: map_of_eq_None_iff)
    moreover from \<open>k \<in> fst ` set ?declared\<close> have "map_of direct k = map_of ?declared k"
      unfolding entries by simp
    ultimately show "map_of (field_map c) k = map_of ?declared k"
      unfolding merged by (simp add: map_add_def)
  qed
  have inherited: "\<forall>k. k \<notin> fst ` set ?declared \<longrightarrow> k \<notin> ?implicit \<longrightarrow>
                     map_of (field_map c) k = ancestors_fields mro k"
  proof (intro allI impI)
    fix k
    assume "k \<notin> fst ` set ?declared" and "k \<notin> ?implicit"
    then have "map_of direct k = None"
      unfolding entries by (simp add: map_of_eq_None_iff)
    then show "map_of (field_map c) k = ancestors_fields mro k"
      unfolding merged by (simp add: map_add_def)
  qed
  have implicit: "\<forall>k \<in> ?implicit. k \<notin> fst ` set ?declared \<longrightarrow> ancestors_fields mro k = None \<longrightarrow>
                    map_of (field_map c) k = Some dflt"
  proof (intro ballI impI)
    fix k
    assume "k \<in> ?implicit" and "k \<notin> fst ` set ?declared"
    then have "map_of direct k = Some dflt"
      unfolding entries by simp
    then show "map_of (field_map c) k = Some dflt"
      unfolding merged by (simp add: map_add_def)
  qed
  have plain: "lookup_Meta (del_fields (declared_fields attrs) attrs) mro = None \<longrightarrow>
                 map_of (field_map c) = ancestors_fields mro ++ map_of ?declared"
  proof
    assume "lookup_Meta (del_fields (declared_fields attrs) attrs) mro = None"
    from new_without_Meta [OF this built] show
      "map_of (field_map c) = ancestors_fields mro ++ map_of ?declared"
      using map_of_get_fields [OF dicts distinct_declared_fields] by simp
  qed
  have once: "distinct (map fst (field_map c))"
    unfolding stored by (rule get_fields_distinct)
  show ?thesis
    by (intro conjI) (rule names own inherited implicit plain once)+
qed

theorem C2_field_map_of_built_class_witness:
  "(\<exists>c. SerializerMeta_new (basic_field True)
           [(''b'', AField (basic_field False)),
            (''Meta'', AClass \<lparr>Meta_model = Some \<lparr>django_fields = Some [''b'', ''c''],
                                                 sqla_columns = None\<rparr>,
                               Meta_fields = CStr ''__all__'', Meta_exclude = CNone\<rparr>)]
           (plain_class\<lparr>is_serializer_base := True, field_map := [(''a'', basic_field False)]\<rparr>
            # Serializer_mro) = Inr c
        \<and> map fst (field_map c) = [''a'', ''b'', ''c'']
        \<and> map_of (field_map c) ''a'' = Some (basic_field False)
        \<and> map_of (field_map c) ''b'' = Some (basic_field False)
        \<and> map_of (field_map c) ''c'' = Some (basic_field True))
   \<and> implicit_names
        (lookup_Meta
           (del_fields
              (declared_fields
                 [(''b'', AField (basic_field False)),
                  (''Meta'', AClass \<lparr>Meta_model = Some \<lparr>django_fields = Some [''b'', ''c''],
                                                       sqla_columns = None\<rparr>,
                                     Meta_fields = CStr ''__all__'', Meta_exclude = CNone\<rparr>)])
              [(''b'', AField (basic_field False)),
               (''Meta'', AClass \<lparr>Meta_model = Some \<lparr>django_fields = Some [''b'', ''c''],
                                                    sqla_columns = None\<rparr>,
                                  Meta_fields = CStr ''__all__'', Meta_exclude = CNone\<rparr>)])
           (plain_class\<lparr>is_serializer_base := True, field_map := [(''a'', basic_field False)]\<rparr>
            # Serializer_mro))
       = {''b'', ''c''}
   \<and> lookup_Meta
        (del_fields (declared_fields [(''b'', AField (basic_field True))])
           [(''b'', AField (basic_field True))])
        (plain_class\<lparr>is_serializer_base := True, field_map := [(''a'', basic_field False)]\<rparr>
         # Serializer_mro) = None
   \<and> (\<exists>c. SerializerMeta_new (basic_field True) [(''b'', AField (basic_field True))]
             (plain_class\<lparr>is_serializer_base := True, field_map := [(''a'', basic_field False)]\<rparr>
              # Serializer_mro) = Inr c
          \<and> map_of (field_map c) = [''a'' \<mapsto> basic_field False, ''b'' \<mapsto> basic_field True])"
proof -
  let ?m = "\<lparr>Meta_model = Some \<lparr>django_fields = Some [''b'', ''c''], sqla_columns = None\<rparr>,
             Meta_fields = CStr ''__all__'', Meta_exclude = CNone\<rparr>"
  let ?attrs = "[(''b'', AField (basic_field False)), (''Meta'', AClass ?m)]"
  let ?mro = "plain_class\<lparr>is_serializer_base := True, field_map := [(''a'', basic_field False)]\<rparr>
              # Serializer_mro"
  have declared: "declared_fields ?attrs = [(''b'', basic_field False)]"
    by (simp add: declared_fields_def)
  have found: "lookup_Meta (del_fields (declared_fields ?attrs) ?attrs) ?mro = Some ?m"
    by (simp add: declared del_fields_def lookup_Meta_def)
  have implicit: "implicit_names (lookup_Meta (del_fields (declared_fields ?attrs) ?attrs) ?mro)
                    = {''b'', ''c''}"
    unfolding found by (simp add: implicit_names_def get_implicit_fields_def)
  have dicts: "\<forall>a \<in> set ?mro. distinct (map fst (field_map a))"
    by (simp add: Serializer_mro_def Serializer_class_def SerializerBase_class_def plain_class_def)
  have ancestors: "ancestors_fields ?mro = [''a'' \<mapsto> basic_field False]"
    by (simp add: Serializer_mro_def Serializer_class_def SerializerBase_class_def plain_class_def
                  fun_eq_iff)
  have run: "map_sum id (\<lambda>c. map fst (field_map c))
               (SerializerMeta_new (basic_field True) ?attrs ?mro) = Inr [''a'', ''b'', ''c'']"
    unfolding new_with_Meta [OF found]
    by (simp add: declared_fields_def get_implicit_fields_def update_direct_fields_def
                  finish_class_def get_fields_def dict_update_def compile_field_to_tuple_def
                  str_or_def basic_field_def lookup_default_getter_def del_fields_def
                  Serializer_mro_def Serializer_class_def SerializerBase_class_def
                  plain_class_def)
  have plain_declared: "declared_fields [(''b'', AField (basic_field True))] = [(''b'', basic_field True)]"
    by (simp add: declared_fields_def)
  have no_Meta:
    "lookup_Meta (del_fields (declared_fields [(''b'', AField (basic_field True))])
                    [(''b'', AField (basic_field True))]) ?mro = None"
    by (simp add: plain_declared del_fields_def lookup_Meta_def Serializer_mro_def
                  Serializer_class_def SerializerBase_class_def plain_class_def)
  have plain_run:
    "\<exists>c. SerializerMeta_new (basic_field True) [(''b'', AField (basic_field True))] ?mro = Inr c"
    by (simp add: SerializerMeta_new_def lookup_Meta_def finish_class_def get_fields_def dict_update_def
                  compile_field_to_tuple_def str_or_def basic_field_def lookup_default_getter_def
                  declared_fields_def del_fields_def Serializer_mro_def Serializer_class_def
                  SerializerBase_class_def plain_class_def)
  have plain:
    "\<exists>c. SerializerMeta_new (basic_field True) [(''b'', AField (basic_field True))] ?mro = Inr c
         \<and> map_of (field_map c) = [''a'' \<mapsto> basic_field False, ''b'' \<mapsto> basic_field True]"
  proof -
    from plain_run obtain c where
      built: "SerializerMeta_new (basic_field True) [(''b'', AField (basic_field True))] ?mro = Inr c"
      ..
    from C2_field_map_of_built_class [OF built dicts] no_Meta
    have "map_of (field_map c)
            = ancestors_fields ?mro ++ map_of (declared_fields [(''b'', AField (basic_field True))])"
      by (simp only: simp_thms)
    then have "map_of (field_map c) = [''a'' \<mapsto> basic_field False, ''b'' \<mapsto> basic_field True]"
      unfolding ancestors plain_declared by (simp add: fun_eq_iff)
    with built show ?thesis by (intro exI [of _ c] conjI)
  qed
  show ?thesis
  proof (cases "SerializerMeta_new (basic_field True) ?attrs ?mro")
    case (Inl e)
    with run show ?thesis by simp
  next
    case (Inr c)
    with run have order: "map fst (field_map c) = [''a'', ''b'', ''c'']"
      by simp
    note facts = C2_field_map_of_built_class [OF Inr dicts]
    note own = facts [THEN conjunct2, THEN conjunct1, rule_format]
    note inherited = facts [THEN conjunct2, THEN conjunct2, THEN conjunct1, rule_format]
    note fresh = facts [THEN conjunct2, THEN conjunct2, THEN conjunct2, THEN conjunct1, rule_format]
    have "map_of (field_map c) ''a'' = ancestors_fields ?mro ''a''"
      by (rule inherited) (simp add: declared, simp add: implicit)
    then have a: "map_of (field_map c) ''a'' = Some (basic_field False)"
      by (simp add: ancestors)
    have "map_of (field_map c) ''b'' = map_of (declared_fields ?attrs) ''b''"
      by (rule own) (simp add: declared)
    then have b: "map_of (field_map c) ''b'' = Some (basic_field False)"
      by (simp add: declared)
    have c: "map_of (field_map c) ''c'' = Some (basic_field True)"
      by (rule fresh) (simp add: implicit, simp add: declared, simp only: ancestors, simp)
    have "\<exists>c. SerializerMeta_new (basic_field True) ?attrs ?mro = Inr c
            \<and> map fst (field_map c) = [''a'', ''b'', ''c'']
            \<and> map_of (field_map c) ''a'' = Some (basic_field False)
            \<and> map_of (field_map c) ''b'' = Some (basic_field False)
            \<and> map_of (field_map c) ''c'' = Some (basic_field True)"
      by (intro exI [of _ c] conjI) (rule Inr order a b c)+
    then show ?thesis
      by (intro conjI) (assumption, rule implicit, rule no_Meta, rule plain)
  qed
qed

text \<open>
  C2 as it was stated fails on a class that inherits a \<^verbatim>\<open>Meta\<close>. The class
  \<^verbatim>\<open>P(Serializer)\<close> declares \<^verbatim>\<open>name = Field(required=False)\<close> and a \<^verbatim>\<open>Meta\<close> with a
  Django model whose only field is \<^verbatim>\<open>name\<close> and \<^verbatim>\<open>fields = '__all__'\<close>; the first
  equation builds it. The class \<^verbatim>\<open>C(P)\<close> declares nothing. Its field map holds the
  default field under \<^verbatim>\<open>name\<close>, here \<^verbatim>\<open>Field(required=True)\<close>, where the union of the
  ancestors' field maps and of the fields declared in \<^verbatim>\<open>C\<close> holds the descriptor of
  \<^verbatim>\<open>P\<close>.
\<close>

theorem C2_inherited_Meta_counterexample:
  "SerializerMeta_new (basic_field True)
     [(''name'', AField (basic_field False)),
      (''Meta'', AClass \<lparr>Meta_model = Some \<lparr>django_fields = Some [''name''], sqla_columns = None\<rparr>,
                         Meta_fields = CStr ''__all__'', Meta_exclude = CNone\<rparr>)]
     Serializer_mro
     = Inr \<lparr>is_serializer_base = True,
            field_map = [(''name'', basic_field False)],
            compiled_fields = [(''name'', attrgetter ''name'', None, False, False, False)],
            default_getter = None,
            Meta = Some (Some \<lparr>Meta_model = Some \<lparr>django_fields = Some [''name''],
                                                   sqla_columns = None\<rparr>,
                               Meta_fields = CStr ''__all__'', Meta_exclude = CNone\<rparr>)\<rparr>
   \<and> map_sum id field_map
       (SerializerMeta_new (basic_field True) []
          (\<lparr>is_serializer_base = True,
            field_map = [(''name'', basic_field False)],
            compiled_fields = [(''name'', attrgetter ''name'', None, False, False, False)],
            default_getter = None,
            Meta = Some (Some \<lparr>Meta_model = Some \<lparr>django_fields = Some [''name''],
                                                   sqla_columns = None\<rparr>,
                               Meta_fields = CStr ''__all__'', Meta_exclude = CNone\<rparr>)\<rparr>
           # Serializer_mro))
     = Inr [(''name'', basic_field True)]
   \<and> declared_fields [] = ([] :: (string \<times> field) list)
   \<and> (ancestors_fields
         (\<lparr>is_serializer_base = True,
           field_map = [(''name'', basic_field False)],
           compiled_fields = [(''name'', attrgetter ''name'', None, False, False, False)],
           default_getter = None,
           Meta = Some (Some \<lparr>Meta_model = Some \<lparr>django_fields = Some [''name''],
                                                  sqla_columns = None\<rparr>,
                              Meta_fields = CStr ''__all__'', Meta_exclude = CNone\<rparr>)\<rparr>
          # Serializer_mro)
       ++ map_of (declared_fields [])) ''name'' = Some (basic_field False)
   \<and> basic_field True \<noteq> basic_field False"
proof -
  let ?m = "\<lparr>Meta_model = Some \<lparr>django_fields = Some [''name''], sqla_columns = None\<rparr>,
             Meta_fields = CStr ''__all__'', Meta_exclude = CNone\<rparr>"
  let ?P = "\<lparr>is_serializer_base = True,
             field_map = [(''name'', basic_field False)],
             compiled_fields = [(''name'', attrgetter ''name'', None, False, False, False)],
             default_getter = None,
             Meta = Some (Some ?m)\<rparr>"
  have none_declared: "declared_fields [] = ([] :: (string \<times> field) list)"
    by (simp add: declared_fields_def)
  have parent_found:
    "lookup_Meta (del_fields (declared_fields [(''name'', AField (basic_field False)), (''Meta'', AClass ?m)])
                    [(''name'', AField (basic_field False)), (''Meta'', AClass ?m)]) Serializer_mro
       = Some ?m"
    by (simp add: declared_fields_def del_fields_def lookup_Meta_def)
  have parent: "SerializerMeta_new (basic_field True)
                  [(''name'', AField (basic_field False)), (''Meta'', AClass ?m)] Serializer_mro
                = Inr ?P"
    unfolding new_with_Meta [OF parent_found]
    by (simp add: declared_fields_def get_implicit_fields_def update_direct_fields_def
                  finish_class_def get_fields_def dict_update_def compile_field_to_tuple_def
                  str_or_def basic_field_def lookup_default_getter_def del_fields_def
                  Serializer_mro_def Serializer_class_def SerializerBase_class_def
                  plain_class_def)
  have child_found:
    "lookup_Meta (del_fields (declared_fields []) []) (?P # Serializer_mro) = Some ?m"
    by (simp add: none_declared del_fields_def lookup_Meta_def)
  have child: "map_sum id field_map (SerializerMeta_new (basic_field True) [] (?P # Serializer_mro))
                 = Inr [(''name'', basic_field True)]"
    unfolding new_with_Meta [OF child_found]
    by (simp add: none_declared get_implicit_fields_def update_direct_fields_def
                  finish_class_def get_fields_def dict_update_def compile_field_to_tuple_def
                  str_or_def basic_field_def lookup_default_getter_def del_fields_def
                  Serializer_mro_def Serializer_class_def SerializerBase_class_def
                  plain_class_def)
  have union: "(ancestors_fields (?P # Serializer_mro) ++ map_of (declared_fields [])) ''name''
                 = Some (basic_field False)"
    by (simp add: none_declared Serializer_mro_def Serializer_class_def SerializerBase_class_def
                  plain_class_def)
  have differ: "basic_field True \<noteq> basic_field False"
    by (simp add: basic_field_def)
  show ?thesis
    by (intro conjI) (rule parent child none_declared union differ)+
qed

section \<open>The \<^verbatim>\<open>Meta\<close> declarations\<close>

text \<open>
  C7. Let the class have a \<^verbatim>\<open>Meta\<close>, its own or an inherited one. Without a model
  \<^verbatim>\<open>SerializerMeta.__new__\<close> raises \<^verbatim>\<open>RuntimeError\<close>, whatever \<^verbatim>\<open>fields\<close> and
  \<^verbatim>\<open>exclude\<close> are; so it does when both \<^verbatim>\<open>fields\<close> and \<^verbatim>\<open>exclude\<close> are set, when
  neither is, and when the model has neither \<^verbatim>\<open>_meta\<close> nor \<^verbatim>\<open>__table__\<close>. A setting
  counts as set when it is truthy, as the source tests it. The exception is the result
  of the class statement: no class and no compiled fields come to exist, so nothing is
  left to fail when a serializer runs.
\<close>

theorem C7_configuration_errors_at_definition:
  assumes "lookup_Meta (del_fields (declared_fields attrs) attrs) mro = Some m"
  shows "(Meta_model m = None \<longrightarrow>
            SerializerMeta_new dflt attrs mro =
              Inl (RuntimeError ''If you specifiy a Meta class, you need to specify a model''))
       \<and> (truthy (Meta_fields m) \<and> truthy (Meta_exclude m) \<longrightarrow>
            SerializerMeta_new dflt attrs mro =
              Inl (RuntimeError
                (if Meta_model m = None
                 then ''If you specifiy a Meta class, you need to specify a model''
                 else ''fields and exclude prohibit each other.'')))
       \<and> (\<not> truthy (Meta_fields m) \<and> \<not> truthy (Meta_exclude m) \<longrightarrow>
            SerializerMeta_new dflt attrs mro =
              Inl (RuntimeError
                (if Meta_model m = None
                 then ''If you specifiy a Meta class, you need to specify a model''
                 else ''You need to specifiy either fields or exclude in Meta'')))
       \<and> (\<forall>mdl. Meta_model m = Some mdl \<longrightarrow> django_fields mdl = None \<longrightarrow>
                  sqla_columns mdl = None \<longrightarrow>
            (\<exists>msg. SerializerMeta_new dflt attrs mro = Inl (RuntimeError msg)))
       \<and> (Meta_model m = None
            \<or> (truthy (Meta_fields m) \<longleftrightarrow> truthy (Meta_exclude m))
            \<or> (\<exists>mdl. Meta_model m = Some mdl \<and> django_fields mdl = None \<and> sqla_columns mdl = None)
          \<longrightarrow> (\<forall>c. SerializerMeta_new dflt attrs mro \<noteq> Inr c))"
proof -
  note eq = new_with_Meta [OF assms, of dflt]
  have a: "Meta_model m = None \<longrightarrow>
            SerializerMeta_new dflt attrs mro =
              Inl (RuntimeError ''If you specifiy a Meta class, you need to specify a model'')"
    unfolding eq by simp
  have b: "truthy (Meta_fields m) \<and> truthy (Meta_exclude m) \<longrightarrow>
            SerializerMeta_new dflt attrs mro =
              Inl (RuntimeError
                (if Meta_model m = None
                 then ''If you specifiy a Meta class, you need to specify a model''
                 else ''fields and exclude prohibit each other.''))"
    unfolding eq by (cases "Meta_model m") simp_all
  have c: "\<not> truthy (Meta_fields m) \<and> \<not> truthy (Meta_exclude m) \<longrightarrow>
            SerializerMeta_new dflt attrs mro =
              Inl (RuntimeError
                (if Meta_model m = None
                 then ''If you specifiy a Meta class, you need to specify a model''
                 else ''You need to specifiy either fields or exclude in Meta''))"
    unfolding eq by (cases "Meta_model m") simp_all
  have d: "\<forall>mdl. Meta_model m = Some mdl \<longrightarrow> django_fields mdl = None \<longrightarrow>
                  sqla_columns mdl = None \<longrightarrow>
            (\<exists>msg. SerializerMeta_new dflt attrs mro = Inl (RuntimeError msg))"
    unfolding eq by simp
  have e: "Meta_model m = None
            \<or> (truthy (Meta_fields m) \<longleftrightarrow> truthy (Meta_exclude m))
            \<or> (\<exists>mdl. Meta_model m = Some mdl \<and> django_fields mdl = None \<and> sqla_columns mdl = None)
          \<longrightarrow> (\<forall>c. SerializerMeta_new dflt attrs mro \<noteq> Inr c)"
  proof (intro impI allI)
    fix c
    assume "Meta_model m = None
            \<or> (truthy (Meta_fields m) \<longleftrightarrow> truthy (Meta_exclude m))
            \<or> (\<exists>mdl. Meta_model m = Some mdl \<and> django_fields mdl = None \<and> sqla_columns mdl = None)"
    then consider "Meta_model m = None"
      | "truthy (Meta_fields m) \<and> truthy (Meta_exclude m)"
      | "\<not> truthy (Meta_fields m) \<and> \<not> truthy (Meta_exclude m)"
      | mdl where "Meta_model m = Some mdl" "django_fields mdl = None" "sqla_columns mdl = None"
      by (cases "truthy (Meta_fields m)"; cases "truthy (Meta_exclude m)") auto
    then show "SerializerMeta_new dflt attrs mro \<noteq> Inr c"
    proof cases
      case 1 with a show ?thesis by simp
    next
      case 2 with b show ?thesis by simp
    next
      case 3 with c show ?thesis by simp
    next
      case 4 with d show ?thesis by auto
    qed
  qed
  show ?thesis by (intro conjI) (rule a b c d e)+
qed

theorem C7_configuration_errors_at_definition_witness:
  "SerializerMeta_new (basic_field True)
     [(''Meta'', AClass \<lparr>Meta_model = None, Meta_fields = CList [Str ''id''], Meta_exclude = CNone\<rparr>)]
     Serializer_mro
     = Inl (RuntimeError ''If you specifiy a Meta class, you need to specify a model'')
   \<and> SerializerMeta_new (basic_field True)
     [(''Meta'', AClass \<lparr>Meta_model = Some \<lparr>django_fields = Some [''id''], sqla_columns = None\<rparr>,
                        Meta_fields = CStr ''__all__'', Meta_exclude = CList [Str ''id'']\<rparr>)]
     Serializer_mro
     = Inl (RuntimeError ''fields and exclude prohibit each other.'')
   \<and> SerializerMeta_new (basic_field True)
     [(''Meta'', AClass \<lparr>Meta_model = Some \<lparr>django_fields = Some [''id''], sqla_columns = None\<rparr>,
                        Meta_fields = CNone, Meta_exclude = CNone\<rparr>)]
     Serializer_mro
     = Inl (RuntimeError ''You need to specifiy either fields or exclude in Meta'')
   \<and> SerializerMeta_new (basic_field True)
     [(''Meta'', AClass \<lparr>Meta_model = Some \<lparr>django_fields = None, sqla_columns = None\<rparr>,
                        Meta_fields = CStr ''__all__'', Meta_exclude = CNone\<rparr>)]
     Serializer_mro
     = Inl (RuntimeError ''Cannot deduce your fields from your model declaration'')"
proof -
  have meta: "\<And>m. lookup_Meta (del_fields (declared_fields [(''Meta'', AClass m)])
                                   [(''Meta'', AClass m)]) Serializer_mro = Some m"
    by (simp add: declared_fields_def del_fields_def lookup_Meta_def)
  note at_meta = C7_configuration_errors_at_definition [OF meta, of _ "basic_field True"]
  have a: "SerializerMeta_new (basic_field True)
     [(''Meta'', AClass \<lparr>Meta_model = None, Meta_fields = CList [Str ''id''], Meta_exclude = CNone\<rparr>)]
     Serializer_mro
     = Inl (RuntimeError ''If you specifiy a Meta class, you need to specify a model'')"
    using at_meta [of "\<lparr>Meta_model = None, Meta_fields = CList [Str ''id''], Meta_exclude = CNone\<rparr>"]
    by simp
  have b: "SerializerMeta_new (basic_field True)
     [(''Meta'', AClass \<lparr>Meta_model = Some \<lparr>django_fields = Some [''id''], sqla_columns = None\<rparr>,
                        Meta_fields = CStr ''__all__'', Meta_exclude = CList [Str ''id'']\<rparr>)]
     Serializer_mro
     = Inl (RuntimeError ''fields and exclude prohibit each other.'')"
    using at_meta [of "\<lparr>Meta_model = Some \<lparr>django_fields = Some [''id''], sqla_columns = None\<rparr>,
                    Meta_fields = CStr ''__all__'', Meta_exclude = CList [Str ''id'']\<rparr>"]
    by simp
  have c: "SerializerMeta_new (basic_field True)
     [(''Meta'', AClass \<lparr>Meta_model = Some \<lparr>django_fields = Some [''id''], sqla_columns = None\<rparr>,
                        Meta_fields = CNone, Meta_exclude = CNone\<rparr>)]
     Serializer_mro
     = Inl (RuntimeError ''You need to specifiy either fields or exclude in Meta'')"
    using at_meta [of "\<lparr>Meta_model = Some \<lparr>django_fields = Some [''id''], sqla_columns = None\<rparr>,
                    Meta_fields = CNone, Meta_exclude = CNone\<rparr>"]
    by simp
  have d: "SerializerMeta_new (basic_field True)
     [(''Meta'', AClass \<lparr>Meta_model = Some \<lparr>django_fields = None, sqla_columns = None\<rparr>,
                        Meta_fields = CStr ''__all__'', Meta_exclude = CNone\<rparr>)]
     Serializer_mro
     = Inl (RuntimeError ''Cannot deduce your fields from your model declaration'')"
    by (simp add: new_with_Meta [OF meta])
  show ?thesis by (intro conjI) (rule a b c d)+
qed

lemma get_fields_no_ancestor_fields:
  assumes "\<forall>c \<in> set mro. is_serializer_base c \<longrightarrow> field_map c = []"
  shows "get_fields direct mro = dict_update [] direct"
proof -
  have fold_empty:
    "fold (\<lambda>c m. if is_serializer_base c then dict_update m (field_map c) else m) (rev mro) [] = []"
    using assms by (induction mro) (simp_all add: dict_update_def)
  show ?thesis
  proof (cases "filter is_serializer_base mro")
    case Nil
    then show ?thesis by (simp add: get_fields_def Let_def fold_empty)
  next
    case (Cons c cs)
    then have "c \<in> set (filter is_serializer_base mro)" by simp
    then have "field_map c = []" using assms by simp
    then show ?thesis
      using Cons by (simp add: get_fields_def Let_def fold_empty dict_update_def)
  qed
qed

text \<open>
  C6. A class that declares no field and whose ancestors have none, with a \<^verbatim>\<open>Meta\<close>
  whose model lists the fields \<^verbatim>\<open>id\<close>, \<^verbatim>\<open>name\<close>, \<^verbatim>\<open>age\<close> (as a Django model or as
  an SQLAlchemy model), \<^verbatim>\<open>exclude = ['age']\<close> and no \<^verbatim>\<open>fields\<close>: the class is built,
  and its field map and its compiled fields are those of \<^verbatim>\<open>id\<close> and \<^verbatim>\<open>name\<close>, in
  this order. The class has a \<^verbatim>\<open>default_getter\<close>, as every subclass of
  \<^verbatim>\<open>Serializer\<close> has, and \<^verbatim>\<open>Field()\<close> carries no label.
\<close>

theorem C6_exclusion_keeps_canonical_order:
  assumes no_fields: "declared_fields attrs = []"
    and meta: "lookup_Meta attrs mro = Some m"
    and model: "Meta_model m = Some mdl"
    and canonical: "django_fields mdl = Some [''id'', ''name'', ''age'']
                    \<or> django_fields mdl = None \<and> sqla_columns mdl = Some [''id'', ''name'', ''age'']"
    and incl: "Meta_fields m = CNone"
    and excl: "Meta_exclude m = CList [Str ''age'']"
    and ancestors: "\<forall>c \<in> set mro. is_serializer_base c \<longrightarrow> field_map c = []"
    and getter: "lookup_default_getter attrs mro = Some dg"
    and no_label: "label dflt = None"
  shows "\<exists>c. SerializerMeta_new dflt attrs mro = Inr c
           \<and> field_map c = [(''id'', dflt), (''name'', dflt)]
           \<and> map fst (compiled_fields c) = [''id'', ''name'']"
proof -
  have del_none: "del_fields [] attrs = attrs"
    by (simp add: del_fields_def)
  have attrs: "del_fields (declared_fields attrs) attrs = attrs"
    by (simp add: no_fields del_none)
  have canon: "(case django_fields mdl of Some fs \<Rightarrow> Some fs | None \<Rightarrow> sqla_columns mdl)
                 = Some [''id'', ''name'', ''age'']"
    using canonical by auto
  have implicit: "get_implicit_fields [''id'', ''name'', ''age''] CNone (CList [Str ''age''])
                    = CList [Obj ''id'', Obj ''name'']"
    by (simp add: get_implicit_fields_def)
  have direct: "update_direct_fields dflt [] [] (CList [Obj ''id'', Obj ''name''])
                  = Inr [(''id'', dflt), (''name'', dflt)]"
    by (simp add: update_direct_fields_def)
  have merged: "get_fields [(''id'', dflt), (''name'', dflt)] mro = [(''id'', dflt), (''name'', dflt)]"
    unfolding get_fields_no_ancestor_fields [OF ancestors]
    by (simp add: dict_update_def)
  obtain t1 t2 where
    compiled: "compile_fields [(''id'', dflt), (''name'', dflt)] (Some dg) = Inr [t1, t2]"
      and names: "fst t1 = ''id''" "fst t2 = ''name''"
    by (cases "as_getter dflt ''id''"; cases "as_getter dflt ''name''")
       (simp_all add: compile_field_to_tuple_def str_or_def no_label)
  have meta': "lookup_Meta (del_fields (declared_fields attrs) attrs) mro = Some m"
    using meta attrs by simp
  have "SerializerMeta_new dflt attrs mro = finish_class attrs mro [(''id'', dflt), (''name'', dflt)]"
    unfolding new_with_Meta [OF meta']
    by (simp add: del_none model incl excl canon no_fields implicit direct)
  then show ?thesis
    by (simp add: finish_class_def Let_def merged getter compiled names del: compile_fields.simps)
qed

theorem C6_exclusion_keeps_canonical_order_witness:
  "declared_fields
     [(''Meta'', AClass \<lparr>Meta_model = Some \<lparr>django_fields = Some [''id'', ''name'', ''age''],
                                          sqla_columns = None\<rparr>,
                        Meta_fields = CNone, Meta_exclude = CList [Str ''age'']\<rparr>)] = []
   \<and> lookup_default_getter
       [(''Meta'', AClass \<lparr>Meta_model = Some \<lparr>django_fields = Some [''id'', ''name'', ''age''],
                                            sqla_columns = None\<rparr>,
                          Meta_fields = CNone, Meta_exclude = CList [Str ''age'']\<rparr>)]
       Serializer_mro = Some attrgetter
   \<and> (\<exists>c. SerializerMeta_new (basic_field True)
              [(''Meta'', AClass \<lparr>Meta_model = Some \<lparr>django_fields = Some [''id'', ''name'', ''age''],
                                                   sqla_columns = None\<rparr>,
                                 Meta_fields = CNone, Meta_exclude = CList [Str ''age'']\<rparr>)]
              Serializer_mro = Inr c
            \<and> field_map c = [(''id'', basic_field True), (''name'', basic_field True)]
            \<and> map fst (compiled_fields c) = [''id'', ''name''])"
proof -
  let ?mdl = "\<lparr>django_fields = Some [''id'', ''name'', ''age''], sqla_columns = None\<rparr>"
  let ?m = "\<lparr>Meta_model = Some ?mdl, Meta_fields = CNone, Meta_exclude = CList [Str ''age'']\<rparr>"
  let ?attrs = "[(''Meta'', AClass ?m)]"
  have no_fields: "declared_fields ?attrs = []"
    by (simp add: declared_fields_def)
  have meta: "lookup_Meta ?attrs Serializer_mro = Some ?m"
    by (simp add: lookup_Meta_def)
  have model: "Meta_model ?m = Some ?mdl"
    by simp
  have canonical: "django_fields ?mdl = Some [''id'', ''name'', ''age'']
                    \<or> django_fields ?mdl = None \<and> sqla_columns ?mdl = Some [''id'', ''name'', ''age'']"
    by simp
  have incl: "Meta_fields ?m = CNone" and excl: "Meta_exclude ?m = CList [Str ''age'']"
    by simp_all
  have ancestors: "\<forall>c \<in> set Serializer_mro. is_serializer_base c \<longrightarrow> field_map c = []"
    by (simp add: Serializer_mro_def Serializer_class_def SerializerBase_class_def plain_class_def)
  have getter: "lookup_default_getter ?attrs Serializer_mro = Some attrgetter"
    by (simp add: lookup_default_getter_def Serializer_mro_def Serializer_class_def
                  SerializerBase_class_def plain_class_def)
  have no_label: "label (basic_field True) = None"
    by (simp add: basic_field_def)
  from C6_exclusion_keeps_canonical_order
    [OF no_fields meta model canonical incl excl ancestors getter no_label]
    no_fields getter
  show ?thesis by simp
qed

text \<open>
  C5. A \<^verbatim>\<open>Meta\<close> with a Django model and an inclusion list whose first element is a
  name, that is a string: \<^verbatim>\<open>_get_implicit_fields\<close> returns the list as it is, and
  \<^verbatim>\<open>_update_direct_fields\<close> reads \<^verbatim>\<open>field.name\<close> of the string and raises
  \<^verbatim>\<open>AttributeError\<close>. No class is built.
\<close>

theorem C5_inclusion_list_of_names_raises:
  "SerializerMeta_new dflt
     [(''Meta'', AClass \<lparr>Meta_model = Some \<lparr>django_fields = Some model_fields, sqla_columns = cols\<rparr>,
                        Meta_fields = CList (Str n # rest), Meta_exclude = CNone\<rparr>)]
     mro = Inl AttributeError"
proof -
  let ?m = "\<lparr>Meta_model = Some \<lparr>django_fields = Some model_fields, sqla_columns = cols\<rparr>,
             Meta_fields = CList (Str n # rest), Meta_exclude = CNone\<rparr>"
  have no_fields: "declared_fields [(''Meta'', AClass ?m)] = []"
    by (simp add: declared_fields_def)
  have meta: "lookup_Meta (del_fields (declared_fields [(''Meta'', AClass ?m)]) [(''Meta'', AClass ?m)]) mro
                = Some ?m"
    by (simp add: no_fields del_fields_def lookup_Meta_def)
  show ?thesis
    unfolding new_with_Meta [OF meta]
    by (simp add: no_fields get_implicit_fields_def update_direct_fields_def)
qed

end
